theory Spec2Isabelle
  imports Complex_Main "HOL-Library.Sublist"
begin

section \<open>The data layer of the movie catalog (app/lib/data.ts)\<close>

text \<open>
  The module keeps two module-level arrays, \<open>movies\<close> and \<open>users\<close>, and mutates them in
  place. The embedding threads them through every operation as a \<open>store\<close>: an operation
  takes the store and returns its result together with the store it leaves behind.

  Field names follow the interfaces of the source. The two \<open>id\<close> fields are written
  \<open>m_id\<close> (Movie) and \<open>u_id\<close> (User), since \<open>id\<close> is the identity function of HOL.
  A JavaScript \<open>number\<close> that holds a rating or an average is a value of a type \<open>'n\<close>
  that is left open, with \<open>0\<close> for the literal \<open>0\<close>. The sum and the quotient that
  \<open>addRating\<close> computes are the platform's (IEEE doubles, with their rounding); they are
  not fixed here but taken as parameters, the two fields of a \<open>numberOps\<close>.
  \<open>totalRatings\<close> is a length and therefore a natural number, and the quotient divides a
  number by such a count.
\<close>

subsection \<open>Entities\<close>

record 'n Rating =
  userId :: string
  rating :: 'n
  review :: "string option"

text \<open>\<open>Omit<Movie, 'id' | 'ratings' | 'averageRating' | 'totalRatings'>\<close>, the argument of
  \<open>addMovie\<close>; \<open>Movie\<close> extends it with the four omitted fields.\<close>

record MovieInput =
  title :: string
  description :: string
  imageUrl :: string
  releaseDate :: string

record 'n Movie = MovieInput +
  m_id :: string
  ratings :: "'n Rating list"
  averageRating :: 'n
  totalRatings :: nat

text \<open>\<open>Partial<Omit<Movie, ...>>\<close>, the argument of \<open>updateMovie\<close>: each field may be
  absent.\<close>

record MovieUpdates =
  upd_title :: "string option"
  upd_description :: "string option"
  upd_imageUrl :: "string option"
  upd_releaseDate :: "string option"

datatype Role = admin | user

text \<open>\<open>Omit<User, 'id' | 'role' | 'favorites' | 'createdAt'>\<close>, the argument of
  \<open>addUser\<close>.\<close>

record UserData =
  email :: string
  name :: string
  password :: string

record User = UserData +
  u_id :: string
  role :: Role
  favorites :: "string list"
  createdAt :: string

record 'n store =
  movies :: "'n Movie list"
  users :: "User list"

text \<open>The arithmetic of the platform on numbers: \<open>num_add a b\<close> is \<open>a + b\<close>, and
  \<open>num_div a k\<close> is \<open>a / k\<close> for a count \<open>k\<close>.\<close>

record 'n numberOps =
  num_add :: "'n \<Rightarrow> 'n \<Rightarrow> 'n"
  num_div :: "'n \<Rightarrow> nat \<Rightarrow> 'n"

subsection \<open>Array helpers of the platform\<close>

text \<open>\<open>Array.prototype.find\<close> is \<^const>\<open>find\<close> of HOL (the first match, or nothing).
  \<open>findIndex\<close> returns the position of the first match; \<open>None\<close> stands for \<open>-1\<close>.\<close>

fun findIndex :: "('a \<Rightarrow> bool) \<Rightarrow> 'a list \<Rightarrow> nat option" where
  "findIndex P [] = None"
| "findIndex P (x # xs) = (if P x then Some 0 else map_option Suc (findIndex P xs))"

text \<open>An object obtained by \<open>find\<close> and then assigned to is the first matching element of
  the array, changed where it stands.\<close>

fun mutateFirst :: "('a \<Rightarrow> bool) \<Rightarrow> ('a \<Rightarrow> 'a) \<Rightarrow> 'a list \<Rightarrow> 'a list" where
  "mutateFirst P f [] = []"
| "mutateFirst P f (x # xs) = (if P x then f x # xs else x # mutateFirst P f xs)"

text \<open>\<open>xs.splice(i, 1)\<close> for an index inside the array.\<close>

definition splice1 :: "nat \<Rightarrow> 'a list \<Rightarrow> 'a list" where
  "splice1 i xs = take i xs @ drop (Suc i) xs"

text \<open>\<open>Number.prototype.toString\<close> on a non-negative integer: its decimal digits.\<close>

definition digitChar :: "nat \<Rightarrow> char" where
  "digitChar d = ''0123456789'' ! d"

fun toString :: "nat \<Rightarrow> string" where
  "toString n = (if n < 10 then [digitChar n] else toString (n div 10) @ [digitChar (n mod 10)])"

declare toString.simps [simp del]

subsection \<open>The initial contents of the two arrays\<close>

definition initialMovies :: "'n::zero Movie list" where
  "initialMovies = [
    \<lparr>title = ''The Matrix'',
     description = ''A computer programmer is led to fight an underground war against powerful computers who have constructed his entire reality with a computer program.'',
     imageUrl = ''https://image.tmdb.org/t/p/w500/f89U3ADr1oiB1s9GkdPOEpXUk5H.jpg'',
     releaseDate = ''1999-03-31'',
     m_id = ''1'', ratings = [], averageRating = 0, totalRatings = 0\<rparr>,
    \<lparr>title = ''Inception'',
     description = ''A thief who steals corporate secrets through the use of dream-sharing technology is given the inverse task of planting an idea into the mind of a C.E.O.'',
     imageUrl = ''https://image.tmdb.org/t/p/w500/9gk7adHYeDvHkCSEqAvQNLV5Uge.jpg'',
     releaseDate = ''2010-07-16'',
     m_id = ''2'', ratings = [], averageRating = 0, totalRatings = 0\<rparr>,
    \<lparr>title = ''Interstellar'',
     description = ''A team of explorers travel through a wormhole in space in an attempt to ensure humanity's survival.'',
     imageUrl = ''https://image.tmdb.org/t/p/w500/gEU2QniE6E77NI6lCU6MxlNBvIx.jpg'',
     releaseDate = ''2014-11-07'',
     m_id = ''3'', ratings = [], averageRating = 0, totalRatings = 0\<rparr>,
    \<lparr>title = ''The Dark Knight'',
     description = ''When the menace known as the Joker wreaks havoc and chaos on the people of Gotham, Batman must accept one of the greatest psychological and physical tests.'',
     imageUrl = ''https://image.tmdb.org/t/p/w500/qJ2tW6WMUDux911r6m7haRef0WH.jpg'',
     releaseDate = ''2008-07-18'',
     m_id = ''4'', ratings = [], averageRating = 0, totalRatings = 0\<rparr>,
    \<lparr>title = ''Pulp Fiction'',
     description = ''The lives of two mob hitmen, a boxer, a gangster and his wife, and a pair of diner bandits intertwine in four tales of violence and redemption.'',
     imageUrl = ''https://image.tmdb.org/t/p/w500/d5iIlFn5s0ImszYzBPb8JPIfbXD.jpg'',
     releaseDate = ''1994-10-14'',
     m_id = ''5'', ratings = [], averageRating = 0, totalRatings = 0\<rparr>,
    \<lparr>title = ''Fight Club'',
     description = ''An insomniac office worker and a devil-may-care soap maker form an underground fight club that evolves into an anarchist organization.'',
     imageUrl = ''https://image.tmdb.org/t/p/w500/pB8BM7pdSp6B6Ih7QZ4DrQ3PmJK.jpg'',
     releaseDate = ''1999-10-15'',
     m_id = ''6'', ratings = [], averageRating = 0, totalRatings = 0\<rparr>]"

definition initialUsers :: "User list" where
  "initialUsers = [
    \<lparr>email = ''admin@movieapp.com'', name = ''Movie Admin'',
     password = ''$2b$10$Vp41WiGzXbNY2cAl7rqC/u46K126o1uOhEfUjWR83.uzlL8ExBvIq'',
     u_id = ''1'', role = admin, favorites = [], createdAt = ''2024-01-01T00:00:00.000Z''\<rparr>,
    \<lparr>email = ''demo@example.com'', name = ''Demo User'',
     password = ''$2b$10$Vp41WiGzXbNY2cAl7rqC/u46K126o1uOhEfUjWR83.uzlL8ExBvIq'',
     u_id = ''2'', role = user, favorites = [], createdAt = ''2024-01-01T00:00:00.000Z''\<rparr>]"

definition initialStore :: "'n::zero store" where
  "initialStore = \<lparr>movies = initialMovies, users = initialUsers\<rparr>"

subsection \<open>Core data access\<close>

definition getMovies :: "'n store \<Rightarrow> 'n Movie list" where
  "getMovies s = movies s"

definition getMovieById :: "string \<Rightarrow> 'n store \<Rightarrow> 'n Movie option" where
  "getMovieById i s = find (\<lambda>movie. m_id movie = i) (movies s)"

definition addMovie :: "MovieInput \<Rightarrow> 'n::zero store \<Rightarrow> 'n Movie \<times> 'n store" where
  "addMovie movie s =
     (let newMovie = \<lparr>title = title movie, description = description movie,
                      imageUrl = imageUrl movie, releaseDate = releaseDate movie,
                      m_id = toString (length (movies s) + 1),
                      ratings = [], averageRating = 0, totalRatings = 0\<rparr>
      in (newMovie, s\<lparr>movies := movies s @ [newMovie]\<rparr>))"

definition getUserByEmail :: "string \<Rightarrow> 'n store \<Rightarrow> User option" where
  "getUserByEmail e s = find (\<lambda>u. email u = e) (users s)"

text \<open>\<open>new Date().toISOString()\<close> reads the clock; the time stamp is an argument here.\<close>

definition addUser :: "UserData \<Rightarrow> string \<Rightarrow> 'n store \<Rightarrow> User \<times> 'n store" where
  "addUser userData now s =
     (let newUser = \<lparr>email = email userData, name = name userData,
                     password = password userData,
                     u_id = toString (length (users s) + 1),
                     role = user, favorites = [], createdAt = now\<rparr>
      in (newUser, s\<lparr>users := users s @ [newUser]\<rparr>))"

subsection \<open>Favorites\<close>

definition addToFavorites :: "string \<Rightarrow> string \<Rightarrow> 'n store \<Rightarrow> bool \<times> 'n store" where
  "addToFavorites uid movieId s =
     (case find (\<lambda>u. u_id u = uid) (users s) of
        None \<Rightarrow> (False, s)
      | Some usr \<Rightarrow>
          if movieId \<in> set (favorites usr) then (False, s)
          else (True, s\<lparr>users := mutateFirst (\<lambda>u. u_id u = uid)
                                   (\<lambda>u. u\<lparr>favorites := favorites u @ [movieId]\<rparr>) (users s)\<rparr>))"

definition removeFromFavorites :: "string \<Rightarrow> string \<Rightarrow> 'n store \<Rightarrow> bool \<times> 'n store" where
  "removeFromFavorites uid movieId s =
     (case find (\<lambda>u. u_id u = uid) (users s) of
        None \<Rightarrow> (False, s)
      | Some usr \<Rightarrow>
          (True, s\<lparr>users := mutateFirst (\<lambda>u. u_id u = uid)
                              (\<lambda>u. u\<lparr>favorites := filter (\<lambda>i. i \<noteq> movieId) (favorites u)\<rparr>)
                              (users s)\<rparr>))"

definition getFavoriteMovies :: "string \<Rightarrow> 'n store \<Rightarrow> 'n Movie list" where
  "getFavoriteMovies uid s =
     (case find (\<lambda>u. u_id u = uid) (users s) of
        None \<Rightarrow> []
      | Some usr \<Rightarrow> filter (\<lambda>movie. m_id movie \<in> set (favorites usr)) (movies s))"

definition isMovieFavorited :: "string \<Rightarrow> string \<Rightarrow> 'n store \<Rightarrow> bool" where
  "isMovieFavorited uid movieId s =
     (case find (\<lambda>u. u_id u = uid) (users s) of
        None \<Rightarrow> False
      | Some usr \<Rightarrow> movieId \<in> set (favorites usr))"

subsection \<open>Ratings\<close>

text \<open>
  \<open>addRating\<close> filters the user's earlier entry out, pushes the new one, and recomputes
  the two aggregates of the movie it found. The divisor is the length of an array that
  has just received an element, so it is never zero. \<open>reduce\<close> with an initial value is
  \<^const>\<open>foldl\<close>; the sum \<open>sum + r.rating\<close> and the quotient are computed by the
  platform, \<open>num_add\<close> and \<open>num_div\<close> of the first argument.
\<close>

definition rateMovie ::
  "'n::zero numberOps \<Rightarrow> string \<Rightarrow> 'n \<Rightarrow> string option \<Rightarrow> 'n Movie \<Rightarrow> 'n Movie" where
  "rateMovie N uid r rv movie =
     (let rs = filter (\<lambda>e. userId e \<noteq> uid) (ratings movie)
                 @ [\<lparr>userId = uid, rating = r, review = rv\<rparr>];
          total = length rs
      in movie\<lparr>ratings := rs, totalRatings := total,
               averageRating :=
                 num_div N (foldl (\<lambda>sum e. num_add N sum (rating e)) 0 rs) total\<rparr>)"

definition addRating ::
  "'n::zero numberOps \<Rightarrow> string \<Rightarrow> string \<Rightarrow> 'n \<Rightarrow> string option \<Rightarrow> 'n store
     \<Rightarrow> 'n Movie option \<times> 'n store" where
  "addRating N movieId uid r rv s =
     (case find (\<lambda>m. m_id m = movieId) (movies s) of
        None \<Rightarrow> (None, s)
      | Some movie \<Rightarrow>
          (Some (rateMovie N uid r rv movie),
           s\<lparr>movies := mutateFirst (\<lambda>m. m_id m = movieId) (rateMovie N uid r rv) (movies s)\<rparr>))"

definition getUserRating :: "string \<Rightarrow> string \<Rightarrow> 'n store \<Rightarrow> ('n \<times> string option) option" where
  "getUserRating movieId uid s =
     (case find (\<lambda>m. m_id m = movieId) (movies s) of
        None \<Rightarrow> None
      | Some movie \<Rightarrow>
          (case find (\<lambda>e. userId e = uid) (ratings movie) of
             None \<Rightarrow> None
           | Some userRating \<Rightarrow> Some (rating userRating, review userRating)))"

subsection \<open>Administration\<close>

text \<open>The shallow merge \<open>{ ...movies[movieIndex], ...updates }\<close>: a field of \<open>updates\<close>
  that is present replaces the movie's; \<open>id\<close>, \<open>ratings\<close> and the aggregates are not
  fields of \<open>updates\<close>.\<close>

definition mergeUpdates :: "'n Movie \<Rightarrow> MovieUpdates \<Rightarrow> 'n Movie" where
  "mergeUpdates movie updates =
     movie\<lparr>title := (case upd_title updates of None \<Rightarrow> title movie | Some t \<Rightarrow> t),
           description := (case upd_description updates of None \<Rightarrow> description movie | Some d \<Rightarrow> d),
           imageUrl := (case upd_imageUrl updates of None \<Rightarrow> imageUrl movie | Some i \<Rightarrow> i),
           releaseDate := (case upd_releaseDate updates of None \<Rightarrow> releaseDate movie | Some d \<Rightarrow> d)\<rparr>"

definition updateMovie :: "string \<Rightarrow> MovieUpdates \<Rightarrow> 'n store \<Rightarrow> 'n Movie option \<times> 'n store" where
  "updateMovie i updates s =
     (case findIndex (\<lambda>m. m_id m = i) (movies s) of
        None \<Rightarrow> (None, s)
      | Some movieIndex \<Rightarrow>
          (let merged = mergeUpdates (movies s ! movieIndex) updates
           in (Some merged, s\<lparr>movies := (movies s)[movieIndex := merged]\<rparr>)))"

definition deleteMovie :: "string \<Rightarrow> 'n store \<Rightarrow> bool \<times> 'n store" where
  "deleteMovie i s =
     (case findIndex (\<lambda>m. m_id m = i) (movies s) of
        None \<Rightarrow> (False, s)
      | Some movieIndex \<Rightarrow>
          (True, \<lparr>movies = splice1 movieIndex (movies s),
                  users = map (\<lambda>u. u\<lparr>favorites := filter (\<lambda>fav. fav \<noteq> i) (favorites u)\<rparr>)
                              (users s)\<rparr>))"

subsection \<open>Filtering by year\<close>

text \<open>
  \<open>new Date(releaseDate).getFullYear()\<close> belongs to the platform: how a string is read
  as a date, and in which time zone the year is taken, is not decided by this module.
  The two functions below take it as their first argument, \<open>getFullYear\<close>; \<open>None\<close> is the
  \<open>NaN\<close> of an invalid date. The argument \<open>year: number | null\<close> of \<open>filterMoviesByYear\<close>
  is an integer or \<open>null\<close> (\<open>None\<close>); \<open>!year\<close> holds for \<open>null\<close> and for \<open>0\<close>. Since \<open>NaN\<close> is
  \<open>===\<close> to nothing, a movie whose date is invalid passes no year filter.
\<close>

definition filterMoviesByYear :: "(string \<Rightarrow> int option) \<Rightarrow> int option \<Rightarrow> 'n store \<Rightarrow> 'n Movie list" where
  "filterMoviesByYear getFullYear year s =
     (if year = None \<or> year = Some 0 then movies s
      else filter (\<lambda>movie. let movieYear = getFullYear (releaseDate movie)
                           in movieYear = year) (movies s))"

text \<open>\<open>Array.from(new Set(years))\<close>: the values in the order of their first occurrence.\<close>

definition fromSet :: "'a list \<Rightarrow> 'a list" where
  "fromSet xs = foldl (\<lambda>seen x. if x \<in> set seen then seen else seen @ [x]) [] xs"

text \<open>
  The comparator \<open>(a, b) => b - a\<close>; the difference is \<open>NaN\<close> as soon as one side is.
  \<open>Array.prototype.sort\<close> takes a \<open>NaN\<close> from the comparator for \<open>0\<close> and is stable; it is
  written as an insertion sort, which moves an element past another only when the
  comparator is positive.
\<close>

definition yearCompare :: "int option \<Rightarrow> int option \<Rightarrow> int option" where
  "yearCompare a b = (case (a, b) of (Some x, Some y) \<Rightarrow> Some (y - x) | _ \<Rightarrow> None)"

definition positive :: "int option \<Rightarrow> bool" where
  "positive v = (case v of None \<Rightarrow> False | Some d \<Rightarrow> 0 < d)"

fun insertBy :: "('a \<Rightarrow> 'a \<Rightarrow> int option) \<Rightarrow> 'a \<Rightarrow> 'a list \<Rightarrow> 'a list" where
  "insertBy cmp x [] = [x]"
| "insertBy cmp x (y # ys) = (if positive (cmp x y) then y # insertBy cmp x ys else x # y # ys)"

definition sortBy :: "('a \<Rightarrow> 'a \<Rightarrow> int option) \<Rightarrow> 'a list \<Rightarrow> 'a list" where
  "sortBy cmp xs = foldr (insertBy cmp) xs []"

definition getMovieYears :: "(string \<Rightarrow> int option) \<Rightarrow> 'n store \<Rightarrow> int option list" where
  "getMovieYears getFullYear s =
     (let years = map (\<lambda>movie. getFullYear (releaseDate movie)) (movies s)
      in sortBy yearCompare (fromSet years))"

text \<open>
  One reading of the platform function, used where a concrete one is needed: a date
  that starts with four decimal digits has them as its year (an ISO date such as
  \<open>1999-03-31\<close>, with the year taken in UTC); anything else is an invalid date.
\<close>

definition digitVal :: "char \<Rightarrow> int option" where
  "digitVal c = map_option int (findIndex (\<lambda>d. d = c) ''0123456789'')"

definition isoYear :: "string \<Rightarrow> int option" where
  "isoYear d =
     (case map digitVal (take 4 d) of
        [Some a, Some b, Some c, Some e] \<Rightarrow> Some (1000 * a + 100 * b + 10 * c + e)
      | _ \<Rightarrow> None)"

subsection \<open>The states the store can reach\<close>

text \<open>
  The store changes only through the seven mutating functions of the module. A call is a
  value of \<open>op\<close>; \<open>apply_op\<close> performs it and keeps the store it leaves; \<open>run\<close> performs a
  sequence of calls from left to right. The reachable states are the
  \<open>run N ops initialStore\<close>, where \<open>N\<close> is the arithmetic of the platform.
\<close>

datatype 'n op =
    AddMovie MovieInput
  | AddUser UserData string
  | AddToFavorites string string
  | RemoveFromFavorites string string
  | AddRating string string 'n "string option"
  | UpdateMovie string MovieUpdates
  | DeleteMovie string

fun apply_op :: "'n::zero numberOps \<Rightarrow> 'n op \<Rightarrow> 'n store \<Rightarrow> 'n store" where
  "apply_op N (AddMovie movie) s = snd (addMovie movie s)"
| "apply_op N (AddUser userData now) s = snd (addUser userData now s)"
| "apply_op N (AddToFavorites uid movieId) s = snd (addToFavorites uid movieId s)"
| "apply_op N (RemoveFromFavorites uid movieId) s = snd (removeFromFavorites uid movieId s)"
| "apply_op N (AddRating movieId uid r rv) s = snd (addRating N movieId uid r rv s)"
| "apply_op N (UpdateMovie i updates) s = snd (updateMovie i updates s)"
| "apply_op N (DeleteMovie i) s = snd (deleteMovie i s)"

definition run :: "'n::zero numberOps \<Rightarrow> 'n op list \<Rightarrow> 'n store \<Rightarrow> 'n store" where
  "run N ops s = foldl (\<lambda>st c. apply_op N c st) s ops"

subsection \<open>The properties under study\<close>

text \<open>
  The aggregates of a movie agree with its ratings: the count is the length, and the
  average is the mean of the rating values as the platform computes it, the sum of the
  values taken from left to right divided by the count, or 0 when there is no rating.
\<close>

definition ratingsConsistent :: "'n::zero numberOps \<Rightarrow> 'n Movie \<Rightarrow> bool" where
  "ratingsConsistent N m \<longleftrightarrow>
     totalRatings m = length (ratings m) \<and>
     averageRating m =
       (if totalRatings m = 0 then 0
        else num_div N (foldl (num_add N) 0 (map rating (ratings m))) (totalRatings m))"

definition catalogConsistent :: "'n::zero numberOps \<Rightarrow> 'n store \<Rightarrow> bool" where
  "catalogConsistent N s \<longleftrightarrow> list_all (ratingsConsistent N) (movies s)"

text \<open>No user has two entries among the ratings of a movie.\<close>

definition oneRatingPerUser :: "'n Movie \<Rightarrow> bool" where
  "oneRatingPerUser m \<longleftrightarrow> distinct (map userId (ratings m))"

text \<open>The same user rating the same movie again and again.\<close>

definition rateRepeatedly ::
  "'n::zero numberOps \<Rightarrow> string \<Rightarrow> string \<Rightarrow> ('n \<times> string option) list \<Rightarrow> 'n store \<Rightarrow> 'n store" where
  "rateRepeatedly N movieId uid rs s =
     foldl (\<lambda>st (r, rv). snd (addRating N movieId uid r rv st)) s rs"

text \<open>Every favorited id is the id of a movie of the catalog.\<close>

definition favoritesValid :: "'n store \<Rightarrow> bool" where
  "favoritesValid s \<longleftrightarrow>
     list_all (\<lambda>u. list_all (\<lambda>fav. fav \<in> set (map m_id (movies s))) (favorites u)) (users s)"

text \<open>A call that is not \<open>addToFavorites\<close> with the id of no movie.\<close>

definition favoriteOfCatalog :: "'n op \<Rightarrow> 'n store \<Rightarrow> bool" where
  "favoriteOfCatalog c s =
     (case c of AddToFavorites uid movieId \<Rightarrow> movieId \<in> set (map m_id (movies s)) | _ \<Rightarrow> True)"

text \<open>A sequence of calls in which every \<open>addToFavorites\<close> names a movie that is in the
  catalog at the moment of the call.\<close>

fun catalogRespecting :: "'n::zero numberOps \<Rightarrow> 'n op list \<Rightarrow> 'n store \<Rightarrow> bool" where
  "catalogRespecting N [] s = True"
| "catalogRespecting N (c # cs) s =
     (favoriteOfCatalog c s \<and> catalogRespecting N cs (apply_op N c s))"

subsection \<open>Sample arguments\<close>

text \<open>The movie of the scenario in the specification.\<close>

definition sampleInput :: MovieInput where
  "sampleInput = \<lparr>title = ''X'', description = ''ten+ chars'',
                  imageUrl = ''https://e/i.jpg'', releaseDate = ''2020-01-01''\<rparr>"

text \<open>
  One reading of the platform's arithmetic, used where a concrete one is needed: the
  rationals with their exact sum and quotient. It gives what the doubles give wherever
  the doubles are exact, as they are for the values it is used with below
  (\<open>4 + 5 = 9\<close>, \<open>9 / 2 = 4.5\<close>, and a single rating divided by 1).
\<close>

definition exactOps :: "rat numberOps" where
  "exactOps = \<lparr>num_add = (\<lambda>a b. a + b), num_div = (\<lambda>a k. a / of_nat k)\<rparr>"

text \<open>The initial store, read with the rationals as its numbers.\<close>

abbreviation initialStoreQ :: "rat store" where
  "initialStoreQ \<equiv> initialStore"

section \<open>Facts about the array helpers\<close>

lemma findIndex_None_iff: "findIndex P xs = None \<longleftrightarrow> (\<forall>x \<in> set xs. \<not> P x)"
  by (induction xs) auto

lemma findIndex_SomeD:
  "findIndex P xs = Some i \<Longrightarrow> i < length xs \<and> P (xs ! i) \<and> (\<forall>j < i. \<not> P (xs ! j))"
proof (induction xs arbitrary: i)
  case Nil
  then show ?case by simp
next
  case (Cons x xs)
  show ?case
  proof (cases "P x")
    case True
    with Cons.prems show ?thesis by simp
  next
    case False
    with Cons.prems obtain k where k: "findIndex P xs = Some k" "i = Suc k"
      by auto
    from Cons.IH [OF k(1)] False k(2) show ?thesis
      by (auto simp: less_Suc_eq_0_disj)
  qed
qed

lemma find_findIndex: "find P xs = map_option (\<lambda>i. xs ! i) (findIndex P xs)"
  by (induction xs) (auto simp: option.map_comp comp_def)

lemma find_None_findIndex: "find P xs = None \<longleftrightarrow> findIndex P xs = None"
  by (simp add: find_findIndex)

lemma find_SomeD: "find P xs = Some x \<Longrightarrow> x \<in> set xs \<and> P x"
  by (induction xs) (auto split: if_splits)

lemma mutateFirst_findIndex:
  "mutateFirst P f xs = (case findIndex P xs of None \<Rightarrow> xs | Some i \<Rightarrow> xs[i := f (xs ! i)])"
  by (induction xs) (auto split: option.splits)

lemma length_mutateFirst [simp]: "length (mutateFirst P f xs) = length xs"
  by (induction xs) auto

lemma list_all_mutateFirst:
  "list_all Q xs \<Longrightarrow> (\<And>x. x \<in> set xs \<Longrightarrow> Q x \<Longrightarrow> Q (f x)) \<Longrightarrow> list_all Q (mutateFirst P f xs)"
  by (induction xs) auto

lemma mutateFirst_id: "(\<And>x. x \<in> set xs \<Longrightarrow> P x \<Longrightarrow> f x = x) \<Longrightarrow> mutateFirst P f xs = xs"
  by (induction xs) auto

lemma find_mutateFirst:
  "(\<And>x. P (f x) = P x) \<Longrightarrow> find P (mutateFirst P f xs) = map_option f (find P xs)"
  by (induction xs) auto

lemma map_mutateFirst:
  "(\<And>x. g (f x) = g x) \<Longrightarrow> map g (mutateFirst P f xs) = map g xs"
  by (induction xs) auto

lemma set_splice1_subset: "set (splice1 i xs) \<subseteq> set xs"
  by (auto simp: splice1_def dest: in_set_takeD in_set_dropD)

lemma run_Nil [simp]: "run N [] s = s"
  by (simp add: run_def)

lemma run_Cons [simp]: "run N (c # cs) s = run N cs (apply_op N c s)"
  by (simp add: run_def)

lemma run_snoc [simp]: "run N (cs @ [c]) s = apply_op N c (run N cs s)"
  by (simp add: run_def)

text \<open>A property of single movies that rating, merging and creation establish holds of
  the whole catalog after any operation.\<close>

lemma apply_op_movie_invariant:
  assumes inv: "list_all Q (movies s)"
    and rate: "\<And>uid r rv m. Q m \<Longrightarrow> Q (rateMovie N uid r rv m)"
    and merge: "\<And>m u. Q m \<Longrightarrow> Q (mergeUpdates m u)"
    and new: "\<And>t d i rd n. Q \<lparr>title = t, description = d, imageUrl = i, releaseDate = rd,
                 m_id = n, ratings = [], averageRating = 0, totalRatings = 0\<rparr>"
  shows "list_all Q (movies (apply_op N c s))"
proof (cases c)
  case (AddMovie movie)
  with inv new show ?thesis
    by (simp add: addMovie_def Let_def)
next
  case (AddUser d now)
  with inv show ?thesis
    by (simp add: addUser_def Let_def)
next
  case (AddToFavorites u m)
  with inv show ?thesis
    by (simp add: addToFavorites_def split: option.splits)
next
  case (RemoveFromFavorites u m)
  with inv show ?thesis
    by (simp add: removeFromFavorites_def split: option.splits)
next
  case (AddRating m u r rv)
  with inv rate show ?thesis
    by (auto simp: addRating_def intro: list_all_mutateFirst split: option.splits)
next
  case (UpdateMovie i u)
  show ?thesis
  proof (cases "findIndex (\<lambda>m. m_id m = i) (movies s)")
    case None
    with inv UpdateMovie show ?thesis by (simp add: updateMovie_def)
  next
    case (Some k)
    from findIndex_SomeD [OF Some] have "k < length (movies s)" by simp
    with inv have "Q (movies s ! k)"
      by (simp add: list_all_length)
    then have "Q (mergeUpdates (movies s ! k) u)"
      by (rule merge)
    with inv Some UpdateMovie show ?thesis
      by (auto simp: updateMovie_def Let_def list_all_iff
               dest!: subsetD [OF set_update_subset_insert])
  qed
next
  case (DeleteMovie i)
  with inv show ?thesis using set_splice1_subset [of _ "movies s"]
    by (auto simp: deleteMovie_def list_all_iff split: option.splits)
qed

lemmas store_eval = initialStore_def initialMovies_def initialUsers_def addMovie_def addUser_def
  addToFavorites_def removeFromFavorites_def addRating_def rateMovie_def updateMovie_def
  mergeUpdates_def deleteMovie_def splice1_def toString.simps digitChar_def Let_def
  exactOps_def

section \<open>The aggregates agree with the ratings\<close>

text \<open>The fold of \<open>addRating\<close> over the entries is the left-to-right sum of their rating
  values.\<close>

lemma foldl_rating_values:
  "foldl (\<lambda>sum e. num_add N sum (rating e)) a rs = foldl (num_add N) a (map rating rs)"
  by (induction rs arbitrary: a) simp_all

lemma rateMovie_consistent: "ratingsConsistent N (rateMovie N uid r rv m)"
  by (simp add: ratingsConsistent_def rateMovie_def Let_def foldl_rating_values)

text \<open>With exact arithmetic the left-to-right sum is the sum, and the property is the
  textbook mean.\<close>

lemma exact_sum: "foldl (num_add exactOps) a xs = a + sum_list xs"
  by (induction xs arbitrary: a) (simp_all add: exactOps_def algebra_simps)

lemma ratingsConsistent_exact:
  "ratingsConsistent exactOps m \<longleftrightarrow>
     totalRatings m = length (ratings m) \<and>
     averageRating m = (if totalRatings m = 0 then 0
                        else sum_list (map rating (ratings m)) / of_nat (totalRatings m))"
  by (simp add: ratingsConsistent_def exact_sum) (simp add: exactOps_def)

lemma mergeUpdates_consistent: "ratingsConsistent N m \<Longrightarrow> ratingsConsistent N (mergeUpdates m u)"
  by (simp add: ratingsConsistent_def mergeUpdates_def)

lemma apply_op_consistent: "catalogConsistent N s \<Longrightarrow> catalogConsistent N (apply_op N c s)"
  unfolding catalogConsistent_def
  by (rule apply_op_movie_invariant)
     (simp_all add: rateMovie_consistent mergeUpdates_consistent, simp add: ratingsConsistent_def)

lemma run_consistent: "catalogConsistent N s \<Longrightarrow> catalogConsistent N (run N cs s)"
  by (induction cs arbitrary: s) (auto intro: apply_op_consistent)

lemma initial_consistent: "catalogConsistent N initialStore"
  by (simp add: catalogConsistent_def initialStore_def initialMovies_def ratingsConsistent_def)

text \<open>
  Claim C1. In every reachable state of the store, each movie of the catalog has
  \<open>totalRatings\<close> equal to the length of its \<open>ratings\<close>, and \<open>averageRating\<close> equal to the
  arithmetic mean of the rating values when \<open>totalRatings > 0\<close> and to 0 when
  \<open>totalRatings = 0\<close>; and each of the seven mutating operations (movie creation, user
  creation, the two favorites operations, rating, update, delete) keeps this true. The
  mean is the one the platform computes, \<open>sum(ratings[].rating) / totalRatings\<close> with the
  platform's sum (from left to right) and quotient, whatever these two operations are.
\<close>

theorem ratings_consistent_reachable:
  "catalogConsistent N (run N cs initialStore) \<and>
   (catalogConsistent N s \<longrightarrow> catalogConsistent N (apply_op N c s))"
  using run_consistent [OF initial_consistent] apply_op_consistent by blast

theorem ratings_consistent_reachable_witness:
  "catalogConsistent exactOps (run exactOps [AddRating ''1'' ''2'' 4 None, AddRating ''1'' ''1'' 5 (Some ''fine''),
                           DeleteMovie ''3'', AddMovie sampleInput] initialStoreQ) \<and>
   map (\<lambda>m. (m_id m, totalRatings m, averageRating m))
     (movies (run exactOps [AddRating ''1'' ''2'' 4 None, AddRating ''1'' ''1'' 5 (Some ''fine''),
                   DeleteMovie ''3'', AddMovie sampleInput] initialStoreQ))
     = [(''1'', 2, 9 / 2), (''2'', 0, 0), (''4'', 0, 0), (''5'', 0, 0), (''6'', 0, 0), (''6'', 0, 0)] \<and>
   catalogConsistent exactOps initialStoreQ \<and>
   catalogConsistent exactOps (apply_op exactOps (AddRating ''2'' ''1'' 3 None) initialStoreQ)"
proof -
  have init: "catalogConsistent exactOps initialStoreQ"
    by (simp add: catalogConsistent_def initialStore_def initialMovies_def ratingsConsistent_def)
  have vals: "map (\<lambda>m. (m_id m, totalRatings m, averageRating m))
     (movies (run exactOps [AddRating ''1'' ''2'' 4 None, AddRating ''1'' ''1'' 5 (Some ''fine''),
                   DeleteMovie ''3'', AddMovie sampleInput] initialStoreQ))
     = [(''1'', 2, 9 / 2), (''2'', 0, 0), (''4'', 0, 0), (''5'', 0, 0), (''6'', 0, 0), (''6'', 0, 0)]"
    by (simp add: store_eval sampleInput_def)
  from init vals ratings_consistent_reachable
      [where N = exactOps
         and cs = "[AddRating ''1'' ''2'' 4 None, AddRating ''1'' ''1'' 5 (Some ''fine''),
                    DeleteMovie ''3'', AddMovie sampleInput]"
         and s = initialStoreQ and c = "AddRating ''2'' ''1'' 3 None"]
  show ?thesis by blast
qed

section \<open>Favorites and the catalog\<close>

lemma set_mutateFirst_subset: "set (mutateFirst P f xs) \<subseteq> set xs \<union> f ` set xs"
  by (induction xs) auto

lemma set_splice1: "k < length xs \<Longrightarrow> set xs = insert (xs ! k) (set (splice1 k xs))"
proof -
  assume "k < length xs"
  then have "xs = take k xs @ xs ! k # drop (Suc k) xs"
    by (rule id_take_nth_drop)
  then have "set xs = set (take k xs @ xs ! k # drop (Suc k) xs)"
    by simp
  then show ?thesis
    by (simp add: splice1_def)
qed

lemma favoritesValid_iff:
  "favoritesValid s \<longleftrightarrow>
     (\<forall>u \<in> set (users s). \<forall>fav \<in> set (favorites u). fav \<in> m_id ` set (movies s))"
  by (simp add: favoritesValid_def list_all_iff)

lemma m_id_rateMovie [simp]: "m_id (rateMovie N uid r rv m) = m_id m"
  by (simp add: rateMovie_def Let_def)

lemma m_id_mergeUpdates [simp]: "m_id (mergeUpdates m u) = m_id m"
  by (simp add: mergeUpdates_def)

lemma favoritesValid_weaken:
  assumes v: "favoritesValid s"
    and ids: "m_id ` set (movies s) \<subseteq> m_id ` set (movies s')"
    and us: "\<And>u'. u' \<in> set (users s') \<Longrightarrow> \<exists>u \<in> set (users s). set (favorites u') \<subseteq> set (favorites u)"
  shows "favoritesValid s'"
  unfolding favoritesValid_iff
proof (intro ballI)
  fix u' fav
  assume "u' \<in> set (users s')" and "fav \<in> set (favorites u')"
  with us obtain u where "u \<in> set (users s)" and "fav \<in> set (favorites u)"
    by blast
  with v have "fav \<in> m_id ` set (movies s)"
    by (simp add: favoritesValid_iff)
  with ids show "fav \<in> m_id ` set (movies s')"
    by blast
qed

lemma addMovie_favoritesValid: "favoritesValid s \<Longrightarrow> favoritesValid (snd (addMovie movie s))"
proof (erule favoritesValid_weaken)
  show "m_id ` set (movies s) \<subseteq> m_id ` set (movies (snd (addMovie movie s)))"
    by (simp add: addMovie_def Let_def subset_insertI2)
  show "\<exists>u \<in> set (users s). set (favorites u') \<subseteq> set (favorites u)"
    if "u' \<in> set (users (snd (addMovie movie s)))" for u'
    using that by (simp add: addMovie_def Let_def) blast
qed

lemma addUser_favoritesValid: "favoritesValid s \<Longrightarrow> favoritesValid (snd (addUser d now s))"
  unfolding favoritesValid_iff by (simp add: addUser_def Let_def)

lemma users_mutateFirst_cases:
  assumes "u' \<in> set (mutateFirst P f xs)"
  obtains "u' \<in> set xs" | u where "u \<in> set xs" and "u' = f u"
  using assms set_mutateFirst_subset [of P f xs] by blast

lemma addToFavorites_favoritesValid:
  assumes v: "favoritesValid s" and known: "movieId \<in> m_id ` set (movies s)"
  shows "favoritesValid (snd (addToFavorites uid movieId s))"
proof (cases "fst (addToFavorites uid movieId s)")
  case False
  then have "snd (addToFavorites uid movieId s) = s"
    by (simp add: addToFavorites_def split: option.splits if_splits)
  with v show ?thesis by simp
next
  case True
  let ?f = "\<lambda>u. u\<lparr>favorites := favorites u @ [movieId]\<rparr>"
  from True have s': "snd (addToFavorites uid movieId s)
      = s\<lparr>users := mutateFirst (\<lambda>u. u_id u = uid) ?f (users s)\<rparr>"
    by (simp add: addToFavorites_def split: option.splits if_splits)
  show ?thesis
    unfolding s' favoritesValid_iff
  proof (intro ballI)
    fix u' fav
    assume "u' \<in> set (users (s\<lparr>users := mutateFirst (\<lambda>u. u_id u = uid) ?f (users s)\<rparr>))"
      and fav: "fav \<in> set (favorites u')"
    then have "u' \<in> set (mutateFirst (\<lambda>u. u_id u = uid) ?f (users s))"
      by simp
    then have "fav \<in> m_id ` set (movies s)"
    proof (cases rule: users_mutateFirst_cases)
      case 1
      with v fav show ?thesis by (simp add: favoritesValid_iff)
    next
      case (2 u)
      with fav have "fav = movieId \<or> fav \<in> set (favorites u)" by auto
      with v known 2(1) show ?thesis by (auto simp: favoritesValid_iff)
    qed
    then show "fav \<in> m_id ` set (movies (s\<lparr>users := mutateFirst (\<lambda>u. u_id u = uid) ?f (users s)\<rparr>))"
      by simp
  qed
qed

lemma removeFromFavorites_favoritesValid:
  assumes v: "favoritesValid s"
  shows "favoritesValid (snd (removeFromFavorites uid movieId s))"
proof (cases "fst (removeFromFavorites uid movieId s)")
  case False
  then have "snd (removeFromFavorites uid movieId s) = s"
    by (simp add: removeFromFavorites_def split: option.splits)
  with v show ?thesis by simp
next
  case True
  let ?f = "\<lambda>u. u\<lparr>favorites := filter (\<lambda>i. i \<noteq> movieId) (favorites u)\<rparr>"
  from True have s': "snd (removeFromFavorites uid movieId s)
      = s\<lparr>users := mutateFirst (\<lambda>u. u_id u = uid) ?f (users s)\<rparr>"
    by (simp add: removeFromFavorites_def split: option.splits)
  from v show ?thesis
    unfolding s'
  proof (rule favoritesValid_weaken)
    show "m_id ` set (movies s)
        \<subseteq> m_id ` set (movies (s\<lparr>users := mutateFirst (\<lambda>u. u_id u = uid) ?f (users s)\<rparr>))"
      by simp
    show "\<exists>u \<in> set (users s). set (favorites u') \<subseteq> set (favorites u)"
      if "u' \<in> set (users (s\<lparr>users := mutateFirst (\<lambda>u. u_id u = uid) ?f (users s)\<rparr>))" for u'
    proof -
      from that have "u' \<in> set (mutateFirst (\<lambda>u. u_id u = uid) ?f (users s))"
        by simp
      then show ?thesis
      proof (cases rule: users_mutateFirst_cases)
        case 1
        then show ?thesis by blast
      next
        case (2 u)
        then have "set (favorites u') \<subseteq> set (favorites u)" by auto
        with 2(1) show ?thesis by blast
      qed
    qed
  qed
qed

lemma addRating_ids: "map m_id (movies (snd (addRating N movieId uid r rv s))) = map m_id (movies s)"
  by (simp add: addRating_def map_mutateFirst split: option.splits)

lemma addRating_users: "users (snd (addRating N movieId uid r rv s)) = users s"
  by (simp add: addRating_def split: option.splits)

lemma updateMovie_ids: "map m_id (movies (snd (updateMovie i u s))) = map m_id (movies s)"
proof (cases "findIndex (\<lambda>m. m_id m = i) (movies s)")
  case None
  then show ?thesis by (simp add: updateMovie_def)
next
  case (Some k)
  from findIndex_SomeD [OF Some] have "k < length (movies s)" by simp
  then have "(map m_id (movies s))[k := m_id (movies s ! k)] = map m_id (movies s)"
    using list_update_id [of "map m_id (movies s)" k] by simp
  with Some show ?thesis
    by (simp add: updateMovie_def Let_def map_update)
qed

lemma updateMovie_users: "users (snd (updateMovie i u s)) = users s"
  by (simp add: updateMovie_def Let_def split: option.splits)

lemma favoritesValid_cong:
  "map m_id (movies s') = map m_id (movies s) \<Longrightarrow> users s' = users s \<Longrightarrow>
   favoritesValid s' = favoritesValid s"
  by (simp add: favoritesValid_def)

lemma deleteMovie_favoritesValid:
  assumes v: "favoritesValid s"
  shows "favoritesValid (snd (deleteMovie i s))"
proof (cases "findIndex (\<lambda>m. m_id m = i) (movies s)")
  case None
  with v show ?thesis by (simp add: deleteMovie_def)
next
  case (Some k)
  from findIndex_SomeD [OF Some] have k: "k < length (movies s)" "m_id (movies s ! k) = i"
    by simp_all
  have ids: "m_id ` set (movies s) = insert i (m_id ` set (splice1 k (movies s)))"
    using set_splice1 [OF k(1)] k(2) by (metis image_insert)
  from Some have s': "snd (deleteMovie i s)
      = \<lparr>movies = splice1 k (movies s),
         users = map (\<lambda>u. u\<lparr>favorites := filter (\<lambda>fav. fav \<noteq> i) (favorites u)\<rparr>) (users s)\<rparr>"
    by (simp add: deleteMovie_def)
  show ?thesis
    unfolding s' favoritesValid_iff
  proof (intro ballI)
    fix u' fav
    assume "u' \<in> set (users \<lparr>movies = splice1 k (movies s),
         users = map (\<lambda>u. u\<lparr>favorites := filter (\<lambda>fav. fav \<noteq> i) (favorites u)\<rparr>) (users s)\<rparr>)"
      and fav: "fav \<in> set (favorites u')"
    then obtain u where u: "u \<in> set (users s)"
      and u': "u' = u\<lparr>favorites := filter (\<lambda>fav. fav \<noteq> i) (favorites u)\<rparr>"
      by auto
    from fav u' have "fav \<in> set (favorites u)" and "fav \<noteq> i" by simp_all
    with v u ids have "fav \<in> m_id ` set (splice1 k (movies s))"
      by (auto simp: favoritesValid_iff)
    then show "fav \<in> m_id ` set (movies \<lparr>movies = splice1 k (movies s),
         users = map (\<lambda>u. u\<lparr>favorites := filter (\<lambda>fav. fav \<noteq> i) (favorites u)\<rparr>) (users s)\<rparr>)"
      by simp
  qed
qed

lemma apply_op_favoritesValid:
  assumes "favoritesValid s" and "favoriteOfCatalog c s"
  shows "favoritesValid (apply_op N c s)"
proof (cases c)
  case (AddMovie movie)
  with assms show ?thesis by (simp add: addMovie_favoritesValid)
next
  case (AddUser d now)
  with assms show ?thesis by (simp add: addUser_favoritesValid)
next
  case (AddToFavorites uid movieId)
  with assms show ?thesis
    by (simp add: addToFavorites_favoritesValid favoriteOfCatalog_def)
next
  case (RemoveFromFavorites uid movieId)
  with assms show ?thesis by (simp add: removeFromFavorites_favoritesValid)
next
  case (AddRating movieId uid r rv)
  with assms show ?thesis
    by (simp add: favoritesValid_cong [OF addRating_ids addRating_users])
next
  case (UpdateMovie i u)
  with assms show ?thesis
    by (simp add: favoritesValid_cong [OF updateMovie_ids updateMovie_users])
next
  case (DeleteMovie i)
  with assms show ?thesis by (simp add: deleteMovie_favoritesValid)
qed

lemma initial_favoritesValid: "favoritesValid initialStore"
  by (simp add: favoritesValid_def initialStore_def initialUsers_def)

lemma run_favoritesValid:
  "favoritesValid s \<Longrightarrow> catalogRespecting N cs s \<Longrightarrow> favoritesValid (run N cs s)"
  by (induction cs arbitrary: s) (auto intro: apply_op_favoritesValid)

text \<open>
  Claim C3, as amended. The claim says that in every reachable state each favorited id is
  the id of a movie of the catalog. \<open>addToFavorites\<close> never looks at the catalog, so the
  claim fails as soon as it is called with the id of no movie (the counterexample below).
  What holds: the initial store has the property, and every operation keeps it, with the
  one exception of \<open>addToFavorites\<close> called with an id that is not in the catalog; in
  particular \<open>deleteMovie\<close> keeps it, through its cascade. Hence every state reached by
  calls whose \<open>addToFavorites\<close> name movies of the catalog has the property.
\<close>

theorem favorites_valid_preserved:
  "favoritesValid initialStore \<and>
   (favoritesValid s \<and> favoriteOfCatalog c s \<longrightarrow> favoritesValid (apply_op N c s)) \<and>
   (catalogRespecting N cs initialStore \<longrightarrow> favoritesValid (run N cs initialStore))"
proof (intro conjI impI)
  show "favoritesValid initialStore"
    by (rule initial_favoritesValid)
  show "favoritesValid (apply_op N c s)" if "favoritesValid s \<and> favoriteOfCatalog c s"
    using that by (simp add: apply_op_favoritesValid)
  show "favoritesValid (run N cs initialStore)" if "catalogRespecting N cs initialStore"
    using that by (rule run_favoritesValid [OF initial_favoritesValid])
qed

theorem favorites_dangling_counterexample:
  "\<not> favoritesValid (run exactOps [AddToFavorites ''1'' ''999''] initialStoreQ)"
  by (simp add: favoritesValid_def store_eval)

theorem favorites_valid_preserved_witness:
  "favoritesValid initialStoreQ \<and>
   favoriteOfCatalog (AddToFavorites ''2'' ''3'') initialStoreQ \<and>
   favoritesValid (apply_op exactOps (AddToFavorites ''2'' ''3'') initialStoreQ) \<and>
   map favorites (users (apply_op exactOps (AddToFavorites ''2'' ''3'') initialStoreQ)) = [[], [''3'']] \<and>
   catalogRespecting exactOps [AddToFavorites ''2'' ''3'', AddToFavorites ''1'' ''3'', DeleteMovie ''3'',
                      AddToFavorites ''1'' ''5''] initialStoreQ \<and>
   favoritesValid (run exactOps [AddToFavorites ''2'' ''3'', AddToFavorites ''1'' ''3'', DeleteMovie ''3'',
                        AddToFavorites ''1'' ''5''] initialStoreQ) \<and>
   map favorites (users (run exactOps [AddToFavorites ''2'' ''3'', AddToFavorites ''1'' ''3'',
                              DeleteMovie ''3'', AddToFavorites ''1'' ''5''] initialStoreQ))
     = [[''5''], []]"
proof -
  have g: "favoriteOfCatalog (AddToFavorites ''2'' ''3'') initialStoreQ"
    by (simp add: favoriteOfCatalog_def initialStore_def initialMovies_def)
  have v: "map favorites (users (apply_op exactOps (AddToFavorites ''2'' ''3'') initialStoreQ)) = [[], [''3'']]"
    by (simp add: store_eval)
  have r: "catalogRespecting exactOps [AddToFavorites ''2'' ''3'', AddToFavorites ''1'' ''3'',
                              DeleteMovie ''3'', AddToFavorites ''1'' ''5''] initialStoreQ"
    by (simp add: favoriteOfCatalog_def store_eval)
  have w: "map favorites (users (run exactOps [AddToFavorites ''2'' ''3'', AddToFavorites ''1'' ''3'',
                              DeleteMovie ''3'', AddToFavorites ''1'' ''5''] initialStoreQ))
     = [[''5''], []]"
    by (simp add: store_eval)
  from g v r w favorites_valid_preserved [where N = exactOps and s = initialStoreQ
      and c = "AddToFavorites ''2'' ''3''"
      and cs = "[AddToFavorites ''2'' ''3'', AddToFavorites ''1'' ''3'', DeleteMovie ''3'',
        AddToFavorites ''1'' ''5'']"]
  show ?thesis by blast
qed

section \<open>One rating per user and movie\<close>

lemma rateMovie_one_per_user: "oneRatingPerUser m \<Longrightarrow> oneRatingPerUser (rateMovie N uid r rv m)"
  by (auto simp: oneRatingPerUser_def rateMovie_def Let_def distinct_map_filter)

lemma mergeUpdates_one_per_user: "oneRatingPerUser m \<Longrightarrow> oneRatingPerUser (mergeUpdates m u)"
  by (simp add: oneRatingPerUser_def mergeUpdates_def)

lemma apply_op_one_per_user:
  "list_all oneRatingPerUser (movies s) \<Longrightarrow> list_all oneRatingPerUser (movies (apply_op N c s))"
  by (rule apply_op_movie_invariant)
     (simp_all add: rateMovie_one_per_user mergeUpdates_one_per_user, simp add: oneRatingPerUser_def)

lemma run_one_per_user:
  "list_all oneRatingPerUser (movies s) \<Longrightarrow> list_all oneRatingPerUser (movies (run N cs s))"
  by (induction cs arbitrary: s) (auto intro: apply_op_one_per_user)

lemma initial_one_per_user: "list_all oneRatingPerUser (movies initialStore)"
  by (simp add: initialStore_def initialMovies_def oneRatingPerUser_def)

lemma rateRepeatedly_run:
  "rateRepeatedly N movieId uid rs s = run N (map (\<lambda>(r, rv). AddRating movieId uid r rv) rs) s"
  by (induction rs arbitrary: s) (auto simp: rateRepeatedly_def)

lemma distinct_count_le_1: "distinct xs \<Longrightarrow> length (filter (\<lambda>i. i = a) xs) \<le> 1"
proof (induction xs)
  case Nil
  then show ?case by simp
next
  case (Cons x xs)
  show ?case
  proof (cases "x = a")
    case True
    with Cons.prems have "filter (\<lambda>i. i = a) xs = []"
      by (auto simp: filter_empty_conv)
    with True show ?thesis by simp
  next
    case False
    with Cons show ?thesis by simp
  qed
qed

lemma one_per_user_count:
  assumes "oneRatingPerUser m"
  shows "length (filter (\<lambda>e. userId e = uid) (ratings m)) \<le> 1"
    and "length (ratings m) = card (userId ` set (ratings m))"
proof -
  from assms have d: "distinct (map userId (ratings m))"
    by (simp add: oneRatingPerUser_def)
  have "length (filter (\<lambda>e. userId e = uid) (ratings m))
        = length (filter (\<lambda>i. i = uid) (map userId (ratings m)))"
    by (simp add: filter_map comp_def)
  also from d have "\<dots> \<le> 1"
    by (rule distinct_count_le_1)
  finally show "length (filter (\<lambda>e. userId e = uid) (ratings m)) \<le> 1" .
  from d show "length (ratings m) = card (userId ` set (ratings m))"
    using distinct_card [of "map userId (ratings m)"] by simp
qed


lemma reachable_one_per_user: "list_all oneRatingPerUser (movies (run N cs initialStore))"
  by (rule run_one_per_user [OF initial_one_per_user])

lemma rateMovie_ratings:
  "ratings (rateMovie N uid r rv m)
     = filter (\<lambda>e. userId e \<noteq> uid) (ratings m) @ [\<lparr>userId = uid, rating = r, review = rv\<rparr>]"
  by (simp add: rateMovie_def Let_def)

lemma rateMovie_single_entry:
  "filter (\<lambda>e. userId e = uid) (ratings (rateMovie N uid r rv m))
     = [\<lparr>userId = uid, rating = r, review = rv\<rparr>]"
  by (simp add: rateMovie_ratings filter_empty_conv)

lemma mutateFirst_found:
  "find P xs = Some x \<Longrightarrow> mutateFirst P f xs = mutateFirst P (\<lambda>_. f x) xs"
  by (induction xs) (auto split: if_splits)

lemma addRating_known:
  assumes "find (\<lambda>m. m_id m = movieId) (movies s) = Some movie"
  shows "addRating N movieId uid r rv s
           = (Some (rateMovie N uid r rv movie),
              s\<lparr>movies := mutateFirst (\<lambda>m. m_id m = movieId) (rateMovie N uid r rv) (movies s)\<rparr>)"
    and "getMovieById movieId (snd (addRating N movieId uid r rv s)) = Some (rateMovie N uid r rv movie)"
  using assms by (simp_all add: addRating_def getMovieById_def find_mutateFirst)

text \<open>
  Claim C4. \<open>addRating\<close> with the id of no movie returns \<open>null\<close> and leaves the store as it
  was. With the id of a movie, it returns the movie it found with the same user's earlier
  entry removed from \<open>ratings\<close>, the new entry appended (so the user has exactly one entry)
  and both aggregates recomputed from the new \<open>ratings\<close> (\<open>totalRatings\<close> is their number,
  \<open>averageRating\<close> the platform's left-to-right sum of their values divided by that
  number, whatever the platform's sum and quotient are); the store holds that movie in
  place of the one found. Consequently, after the same user has rated the same movie any
  number of times, from any reachable state, every movie has at most one entry of that
  user, and its \<open>totalRatings\<close> does not exceed the number of distinct users among its
  ratings.
\<close>

theorem addRating_replaces:
  "(find (\<lambda>m. m_id m = movieId) (movies s) = None \<longrightarrow>
      addRating N movieId uid r rv s = (None, s)) \<and>
   (find (\<lambda>m. m_id m = movieId) (movies s) = Some movie \<longrightarrow>
      (\<exists>movie'. addRating N movieId uid r rv s
                   = (Some movie',
                      s\<lparr>movies := mutateFirst (\<lambda>m. m_id m = movieId) (\<lambda>m. movie') (movies s)\<rparr>) \<and>
         getMovieById movieId (snd (addRating N movieId uid r rv s)) = Some movie' \<and>
         ratings movie' = filter (\<lambda>e. userId e \<noteq> uid) (ratings movie)
                            @ [\<lparr>userId = uid, rating = r, review = rv\<rparr>] \<and>
         filter (\<lambda>e. userId e = uid) (ratings movie') = [\<lparr>userId = uid, rating = r, review = rv\<rparr>] \<and>
         totalRatings movie' = length (ratings movie') \<and>
         averageRating movie'
           = num_div N (foldl (num_add N) 0 (map rating (ratings movie'))) (length (ratings movie')))) \<and>
   (\<forall>m \<in> set (movies (rateRepeatedly N movieId uid rs (run N cs initialStore))).
      length (filter (\<lambda>e. userId e = uid) (ratings m)) \<le> 1 \<and>
      totalRatings m \<le> card (userId ` set (ratings m)))"
proof (intro conjI impI ballI)
  assume "find (\<lambda>m. m_id m = movieId) (movies s) = None"
  then show "addRating N movieId uid r rv s = (None, s)"
    by (simp add: addRating_def)
next
  assume f: "find (\<lambda>m. m_id m = movieId) (movies s) = Some movie"
  let ?m' = "rateMovie N uid r rv movie"
  have mut: "mutateFirst (\<lambda>m. m_id m = movieId) (rateMovie N uid r rv) (movies s)
              = mutateFirst (\<lambda>m. m_id m = movieId) (\<lambda>m. ?m') (movies s)"
    using f by (rule mutateFirst_found)
  have c: "ratingsConsistent N ?m'" by (rule rateMovie_consistent)
  have len: "length (ratings ?m') \<noteq> 0" by (simp add: rateMovie_ratings)
  from c len have "totalRatings ?m' = length (ratings ?m')"
    and "averageRating ?m'
           = num_div N (foldl (num_add N) 0 (map rating (ratings ?m'))) (length (ratings ?m'))"
    by (simp_all add: ratingsConsistent_def)
  with addRating_known [OF f, where N = N and uid = uid and r = r and rv = rv] mut
    rateMovie_ratings [where N = N and uid = uid and r = r and rv = rv and m = movie]
    rateMovie_single_entry [where N = N and uid = uid and r = r and rv = rv and m = movie]
  show "\<exists>movie'. addRating N movieId uid r rv s
                   = (Some movie',
                      s\<lparr>movies := mutateFirst (\<lambda>m. m_id m = movieId) (\<lambda>m. movie') (movies s)\<rparr>) \<and>
         getMovieById movieId (snd (addRating N movieId uid r rv s)) = Some movie' \<and>
         ratings movie' = filter (\<lambda>e. userId e \<noteq> uid) (ratings movie)
                            @ [\<lparr>userId = uid, rating = r, review = rv\<rparr>] \<and>
         filter (\<lambda>e. userId e = uid) (ratings movie') = [\<lparr>userId = uid, rating = r, review = rv\<rparr>] \<and>
         totalRatings movie' = length (ratings movie') \<and>
         averageRating movie'
           = num_div N (foldl (num_add N) 0 (map rating (ratings movie'))) (length (ratings movie'))"
    by (intro exI [of _ ?m']) simp
next
  fix m
  assume m: "m \<in> set (movies (rateRepeatedly N movieId uid rs (run N cs initialStore)))"
  have eq: "rateRepeatedly N movieId uid rs (run N cs initialStore)
      = run N (cs @ map (\<lambda>(r, rv). AddRating movieId uid r rv) rs) initialStore"
    by (simp add: rateRepeatedly_run run_def)
  from m have one: "oneRatingPerUser m"
    using reachable_one_per_user [of N "cs @ map (\<lambda>(r, rv). AddRating movieId uid r rv) rs"]
    by (simp add: eq list_all_iff)
  from m have "ratingsConsistent N m"
    using run_consistent [OF initial_consistent,
        of N "cs @ map (\<lambda>(r, rv). AddRating movieId uid r rv) rs"]
    by (simp add: eq catalogConsistent_def list_all_iff)
  then have tot: "totalRatings m = length (ratings m)"
    by (simp add: ratingsConsistent_def)
  from one_per_user_count [OF one] tot
  show "length (filter (\<lambda>e. userId e = uid) (ratings m)) \<le> 1"
    and "totalRatings m \<le> card (userId ` set (ratings m))"
    by simp_all
qed


theorem addRating_replaces_witness:
  "find (\<lambda>m. m_id m = ''99'') (movies initialStoreQ) = None \<and>
   addRating exactOps ''99'' ''u1'' 4 None initialStoreQ = (None, initialStoreQ) \<and>
   find (\<lambda>m. m_id m = ''7'')
     (movies (run exactOps [AddMovie sampleInput, AddRating ''7'' ''u1'' 4 None] initialStoreQ))
     = Some \<lparr>title = ''X'', description = ''ten+ chars'', imageUrl = ''https://e/i.jpg'',
             releaseDate = ''2020-01-01'', m_id = ''7'',
             ratings = [\<lparr>userId = ''u1'', rating = 4, review = None\<rparr>],
             averageRating = 4, totalRatings = 1\<rparr> \<and>
   (\<exists>movie'. fst (addRating exactOps ''7'' ''u1'' 2 None
                  (run exactOps [AddMovie sampleInput, AddRating ''7'' ''u1'' 4 None] initialStoreQ))
                = Some movie' \<and>
      ratings movie' = [\<lparr>userId = ''u1'', rating = 2, review = None\<rparr>] \<and>
      totalRatings movie' = 1 \<and> averageRating movie' = 2) \<and>
   list_all (\<lambda>m. length (filter (\<lambda>e. userId e = ''u1'') (ratings m)) \<le> 1 \<and>
                  totalRatings m \<le> card (userId ` set (ratings m)))
     (movies (rateRepeatedly exactOps ''7'' ''u1'' [(4, None), (2, None)]
                (run exactOps [AddMovie sampleInput] initialStoreQ))) \<and>
   map totalRatings (movies (rateRepeatedly exactOps ''7'' ''u1'' [(4, None), (2, None)]
                (run exactOps [AddMovie sampleInput] initialStoreQ))) = [0, 0, 0, 0, 0, 0, 1]"
proof -
  let ?once = "\<lparr>title = ''X'', description = ''ten+ chars'', imageUrl = ''https://e/i.jpg'',
             releaseDate = ''2020-01-01'', m_id = ''7'',
             ratings = [\<lparr>userId = ''u1'', rating = 4, review = None\<rparr>],
             averageRating = 4, totalRatings = 1\<rparr>"
  let ?s = "run exactOps [AddMovie sampleInput, AddRating ''7'' ''u1'' 4 None] initialStoreQ"
  have unknown: "find (\<lambda>m. m_id m = ''99'') (movies initialStoreQ) = None"
    by (simp add: initialStore_def initialMovies_def)
  have known: "find (\<lambda>m. m_id m = ''7'') (movies ?s) = Some ?once"
    by (simp add: store_eval sampleInput_def)
  have tot: "map totalRatings (movies (rateRepeatedly exactOps ''7'' ''u1'' [(4, None), (2, None)]
                (run exactOps [AddMovie sampleInput] initialStoreQ))) = [0, 0, 0, 0, 0, 0, 1]"
    by (simp add: rateRepeatedly_def store_eval sampleInput_def)
  from addRating_replaces [where N = exactOps and movieId = "''99''" and s = initialStoreQ and uid = "''u1''"
      and r = 4 and rv = None] unknown
  have a: "addRating exactOps ''99'' ''u1'' 4 None initialStoreQ = (None, initialStoreQ)"
    by blast
  from addRating_replaces [where N = exactOps and movieId = "''7''" and s = ?s
      and movie = ?once and uid = "''u1''" and r = 2 and rv = None] known
  obtain movie' where m': "addRating exactOps ''7'' ''u1'' 2 None ?s
       = (Some movie', ?s\<lparr>movies := mutateFirst (\<lambda>m. m_id m = ''7'') (\<lambda>m. movie') (movies ?s)\<rparr>)"
     "ratings movie' = filter (\<lambda>e. userId e \<noteq> ''u1'') (ratings ?once)
                            @ [\<lparr>userId = ''u1'', rating = 2, review = None\<rparr>]"
     "totalRatings movie' = length (ratings movie')"
     "averageRating movie'
        = num_div exactOps (foldl (num_add exactOps) 0 (map rating (ratings movie')))
            (length (ratings movie'))"
    by blast
  from m' have b: "\<exists>movie'. fst (addRating exactOps ''7'' ''u1'' 2 None ?s) = Some movie' \<and>
      ratings movie' = [\<lparr>userId = ''u1'', rating = 2, review = None\<rparr>] \<and>
      totalRatings movie' = 1 \<and> averageRating movie' = 2"
    by (simp add: exactOps_def)
  from addRating_replaces [where N = exactOps and movieId = "''7''" and uid = "''u1''"
      and rs = "[(4, None), (2, None)]" and cs = "[AddMovie sampleInput]"]
  have c: "list_all (\<lambda>m. length (filter (\<lambda>e. userId e = ''u1'') (ratings m)) \<le> 1 \<and>
                  totalRatings m \<le> card (userId ` set (ratings m)))
     (movies (rateRepeatedly exactOps ''7'' ''u1'' [(4, None), (2, None)]
                (run exactOps [AddMovie sampleInput] initialStoreQ)))"
    unfolding list_all_iff by blast
  from unknown a known b c tot show ?thesis by blast
qed

section \<open>Ids of new movies\<close>

text \<open>
  Claim C2. \<open>addMovie\<close> gives the new movie the decimal rendering of the current count
  plus one as its id, empty \<open>ratings\<close>, \<open>averageRating = 0\<close> and \<open>totalRatings = 0\<close>, and
  appends it to the collection. The id is not always new: after \<open>deleteMovie('1')\<close> on the
  initial store five movies are left, the last with id \<open>6\<close>, and the next \<open>addMovie\<close>
  assigns \<open>6\<close> again; \<open>getMovieById('6')\<close> then still answers with the older movie.
\<close>

theorem addMovie_id_collision:
  "m_id (fst (addMovie movie s)) = toString (length (movies s) + 1) \<and>
   ratings (fst (addMovie movie s)) = [] \<and>
   averageRating (fst (addMovie movie s)) = 0 \<and>
   totalRatings (fst (addMovie movie s)) = 0 \<and>
   movies (snd (addMovie movie s)) = movies s @ [fst (addMovie movie s)] \<and>
   map m_id (movies (run exactOps [DeleteMovie ''1''] initialStoreQ)) = [''2'', ''3'', ''4'', ''5'', ''6''] \<and>
   m_id (fst (addMovie sampleInput (run exactOps [DeleteMovie ''1''] initialStoreQ))) = ''6'' \<and>
   map_option title (getMovieById ''6''
       (snd (addMovie sampleInput (run exactOps [DeleteMovie ''1''] initialStoreQ)))) = Some ''Fight Club''"
proof -
  have new: "m_id (fst (addMovie movie s)) = toString (length (movies s) + 1) \<and>
   ratings (fst (addMovie movie s)) = [] \<and>
   averageRating (fst (addMovie movie s)) = 0 \<and>
   totalRatings (fst (addMovie movie s)) = 0 \<and>
   movies (snd (addMovie movie s)) = movies s @ [fst (addMovie movie s)]"
    by (simp add: addMovie_def Let_def)
  have ids: "map m_id (movies (run exactOps [DeleteMovie ''1''] initialStoreQ)) = [''2'', ''3'', ''4'', ''5'', ''6'']"
    by (simp add: store_eval)
  have clash: "m_id (fst (addMovie sampleInput (run exactOps [DeleteMovie ''1''] initialStoreQ))) = ''6''"
    by (simp add: store_eval)
  have hidden: "map_option title (getMovieById ''6''
       (snd (addMovie sampleInput (run exactOps [DeleteMovie ''1''] initialStoreQ)))) = Some ''Fight Club''"
    by (simp add: store_eval getMovieById_def)
  from new ids clash hidden show ?thesis by blast
qed

section \<open>Deleting a movie\<close>

lemma find_None_ids: "find (\<lambda>m. m_id m = i) ms = None \<longleftrightarrow> i \<notin> m_id ` set ms"
  by (auto simp: find_None_iff)

lemma splice1_distinct_ids:
  assumes k: "k < length ms" and d: "distinct (map m_id ms)"
  shows "m_id (ms ! k) \<notin> m_id ` set (splice1 k ms)"
proof -
  from k have "ms = take k ms @ ms ! k # drop (Suc k) ms"
    by (rule id_take_nth_drop)
  then have "map m_id ms = map m_id (take k ms) @ m_id (ms ! k) # map m_id (drop (Suc k) ms)"
    by (metis list.simps(9) map_append)
  with d have "distinct (map m_id (take k ms) @ m_id (ms ! k) # map m_id (drop (Suc k) ms))"
    by simp
  then show ?thesis
    by (auto simp: splice1_def)
qed

lemma deleteMovie_unknown:
  "getMovieById i s = None \<Longrightarrow> deleteMovie i s = (False, s)"
  by (simp add: getMovieById_def deleteMovie_def find_None_findIndex)

lemma deleteMovie_known:
  assumes "findIndex (\<lambda>m. m_id m = i) (movies s) = Some k"
  shows "deleteMovie i s
     = (True, \<lparr>movies = splice1 k (movies s),
               users = map (\<lambda>u. u\<lparr>favorites := filter (\<lambda>fav. fav \<noteq> i) (favorites u)\<rparr>)
                           (users s)\<rparr>)"
  using assms by (simp add: deleteMovie_def)

lemma deleteMovie_not_favorited:
  assumes "fst (deleteMovie i s)"
  shows "u \<in> set (users (snd (deleteMovie i s))) \<Longrightarrow> i \<notin> set (favorites u)"
    and "\<not> isMovieFavorited uid i (snd (deleteMovie i s))"
proof -
  from assms obtain k where k: "findIndex (\<lambda>m. m_id m = i) (movies s) = Some k"
    by (cases "findIndex (\<lambda>m. m_id m = i) (movies s)") (simp_all add: deleteMovie_def)
  show *: "i \<notin> set (favorites u)" if "u \<in> set (users (snd (deleteMovie i s)))" for u
    using that by (auto simp: deleteMovie_known [OF k])
  show "\<not> isMovieFavorited uid i (snd (deleteMovie i s))"
  proof (cases "find (\<lambda>u. u_id u = uid) (users (snd (deleteMovie i s)))")
    case None
    then show ?thesis by (simp add: isMovieFavorited_def)
  next
    case (Some usr)
    from find_SomeD [OF Some] have "usr \<in> set (users (snd (deleteMovie i s)))"
      by simp
    from * [OF this] Some show ?thesis
      by (simp add: isMovieFavorited_def)
  qed
qed

text \<open>
  Claim C5. \<open>deleteMovie\<close> with the id of no movie returns \<open>false\<close> and leaves the store as
  it was. Otherwise it returns \<open>true\<close>, takes the first movie with that id out of the
  catalog (every other movie stays, in its place; with ids that are pairwise different no
  movie with that id is left), and filters the id out of the favorites of every user, so
  that afterwards no user's favorites contain it and \<open>isMovieFavorited\<close> answers \<open>false\<close>
  for every user id.
\<close>

theorem deleteMovie_cascade:
  "(getMovieById i s = None \<longrightarrow> deleteMovie i s = (False, s)) \<and>
   (getMovieById i s \<noteq> None \<longrightarrow>
      fst (deleteMovie i s) \<and>
      (\<exists>k < length (movies s).
          m_id (movies s ! k) = i \<and> (\<forall>j < k. m_id (movies s ! j) \<noteq> i) \<and>
          movies (snd (deleteMovie i s)) = take k (movies s) @ drop (Suc k) (movies s)) \<and>
      (distinct (map m_id (movies s)) \<longrightarrow> getMovieById i (snd (deleteMovie i s)) = None) \<and>
      users (snd (deleteMovie i s))
        = map (\<lambda>u. u\<lparr>favorites := filter (\<lambda>fav. fav \<noteq> i) (favorites u)\<rparr>) (users s) \<and>
      (\<forall>u \<in> set (users (snd (deleteMovie i s))). i \<notin> set (favorites u)) \<and>
      (\<forall>uid. \<not> isMovieFavorited uid i (snd (deleteMovie i s))))"
proof (intro conjI impI)
  assume "getMovieById i s = None"
  then show "deleteMovie i s = (False, s)" by (rule deleteMovie_unknown)
next
  assume "getMovieById i s \<noteq> None"
  then obtain k where k: "findIndex (\<lambda>m. m_id m = i) (movies s) = Some k"
    by (auto simp: getMovieById_def find_None_findIndex)
  note d = deleteMovie_known [OF k]
  note kp = findIndex_SomeD [OF k]
  from d show ok: "fst (deleteMovie i s)" by simp
  from d kp show "\<exists>k < length (movies s).
          m_id (movies s ! k) = i \<and> (\<forall>j < k. m_id (movies s ! j) \<noteq> i) \<and>
          movies (snd (deleteMovie i s)) = take k (movies s) @ drop (Suc k) (movies s)"
    by (intro exI [of _ k]) (simp add: splice1_def)
  from d show "users (snd (deleteMovie i s))
        = map (\<lambda>u. u\<lparr>favorites := filter (\<lambda>fav. fav \<noteq> i) (favorites u)\<rparr>) (users s)"
    by simp
  from deleteMovie_not_favorited [OF ok]
  show "\<forall>u \<in> set (users (snd (deleteMovie i s))). i \<notin> set (favorites u)"
    and "\<forall>uid. \<not> isMovieFavorited uid i (snd (deleteMovie i s))"
    by blast+
  show "getMovieById i (snd (deleteMovie i s)) = None" if "distinct (map m_id (movies s))"
    using splice1_distinct_ids [OF _ that, of k] kp d
    by (simp add: getMovieById_def find_None_ids)
qed

theorem deleteMovie_cascade_witness:
  "getMovieById ''9'' initialStoreQ = None \<and>
   deleteMovie ''9'' initialStoreQ = (False, initialStoreQ) \<and>
   getMovieById ''3'' (run exactOps [AddToFavorites ''1'' ''3'', AddToFavorites ''2'' ''3'',
                            AddToFavorites ''2'' ''5''] initialStoreQ) \<noteq> None \<and>
   distinct (map m_id (movies (run exactOps [AddToFavorites ''1'' ''3'', AddToFavorites ''2'' ''3'',
                            AddToFavorites ''2'' ''5''] initialStoreQ))) \<and>
   isMovieFavorited ''1'' ''3'' (run exactOps [AddToFavorites ''1'' ''3'', AddToFavorites ''2'' ''3'',
                            AddToFavorites ''2'' ''5''] initialStoreQ) \<and>
   fst (deleteMovie ''3'' (run exactOps [AddToFavorites ''1'' ''3'', AddToFavorites ''2'' ''3'',
                            AddToFavorites ''2'' ''5''] initialStoreQ)) \<and>
   \<not> isMovieFavorited ''1'' ''3''
       (snd (deleteMovie ''3'' (run exactOps [AddToFavorites ''1'' ''3'', AddToFavorites ''2'' ''3'',
                            AddToFavorites ''2'' ''5''] initialStoreQ))) \<and>
   getMovieById ''3''
       (snd (deleteMovie ''3'' (run exactOps [AddToFavorites ''1'' ''3'', AddToFavorites ''2'' ''3'',
                            AddToFavorites ''2'' ''5''] initialStoreQ))) = None \<and>
   map favorites
       (users (snd (deleteMovie ''3'' (run exactOps [AddToFavorites ''1'' ''3'', AddToFavorites ''2'' ''3'',
                            AddToFavorites ''2'' ''5''] initialStoreQ)))) = [[], [''5'']]"
proof -
  let ?s = "run exactOps [AddToFavorites ''1'' ''3'', AddToFavorites ''2'' ''3'',
                 AddToFavorites ''2'' ''5''] initialStoreQ"
  have unknown: "getMovieById ''9'' initialStoreQ = None"
    by (simp add: getMovieById_def initialStore_def initialMovies_def)
  have known: "getMovieById ''3'' ?s \<noteq> None"
    by (simp add: getMovieById_def store_eval)
  have dist: "distinct (map m_id (movies ?s))"
    by (simp add: store_eval)
  have before: "isMovieFavorited ''1'' ''3'' ?s"
    by (simp add: isMovieFavorited_def store_eval)
  have favs: "map favorites (users (snd (deleteMovie ''3'' ?s))) = [[], [''5'']]"
    by (simp add: store_eval)
  from deleteMovie_cascade [of "''9''" initialStoreQ] unknown
  have a: "deleteMovie ''9'' initialStoreQ = (False, initialStoreQ)"
    by blast
  from deleteMovie_cascade [of "''3''" ?s] known dist
  have b: "fst (deleteMovie ''3'' ?s)"
    and c: "\<not> isMovieFavorited ''1'' ''3'' (snd (deleteMovie ''3'' ?s))"
    and d: "getMovieById ''3'' (snd (deleteMovie ''3'' ?s)) = None"
    by blast+
  from unknown a known dist before b c d favs show ?thesis by blast
qed

section \<open>Failure changes nothing\<close>

lemma addToFavorites_failure: "\<not> fst (addToFavorites uid movieId s) \<Longrightarrow> snd (addToFavorites uid movieId s) = s"
  by (simp add: addToFavorites_def split: option.splits if_splits)

lemma removeFromFavorites_failure:
  "\<not> fst (removeFromFavorites uid movieId s) \<Longrightarrow> snd (removeFromFavorites uid movieId s) = s"
  by (simp add: removeFromFavorites_def split: option.splits)

lemma addRating_failure:
  "fst (addRating N movieId uid r rv s) = None \<Longrightarrow> snd (addRating N movieId uid r rv s) = s"
  by (simp add: addRating_def split: option.splits)

lemma updateMovie_failure:
  "fst (updateMovie i updates s) = None \<Longrightarrow> snd (updateMovie i updates s) = s"
  by (simp add: updateMovie_def Let_def split: option.splits)

lemma deleteMovie_failure: "\<not> fst (deleteMovie i s) \<Longrightarrow> snd (deleteMovie i s) = s"
  by (simp add: deleteMovie_def split: option.splits)

text \<open>
  Claim C6. An operation that reports failure leaves the whole store, movies and users
  with their favorites and ratings, exactly as it was: \<open>addToFavorites\<close> returning \<open>false\<close>
  (unknown user, or movie already favorited), \<open>removeFromFavorites\<close> returning \<open>false\<close>
  (unknown user), \<open>addRating\<close> and \<open>updateMovie\<close> returning \<open>null\<close> (unknown movie) and
  \<open>deleteMovie\<close> returning \<open>false\<close> (unknown movie). The other operations of the module
  either cannot fail (\<open>addMovie\<close>, \<open>addUser\<close>) or only read the store.
\<close>

theorem failure_leaves_store:
  "(\<not> fst (addToFavorites uid movieId s) \<longrightarrow> snd (addToFavorites uid movieId s) = s) \<and>
   (\<not> fst (removeFromFavorites uid movieId s) \<longrightarrow> snd (removeFromFavorites uid movieId s) = s) \<and>
   (fst (addRating N movieId uid r rv s) = None \<longrightarrow> snd (addRating N movieId uid r rv s) = s) \<and>
   (fst (updateMovie i updates s) = None \<longrightarrow> snd (updateMovie i updates s) = s) \<and>
   (\<not> fst (deleteMovie i s) \<longrightarrow> snd (deleteMovie i s) = s)"
  using addToFavorites_failure removeFromFavorites_failure addRating_failure
    updateMovie_failure deleteMovie_failure
  by blast

theorem failure_leaves_store_witness:
  "\<not> fst (addToFavorites ''2'' ''3'' (run exactOps [AddToFavorites ''2'' ''3''] initialStoreQ)) \<and>
   snd (addToFavorites ''2'' ''3'' (run exactOps [AddToFavorites ''2'' ''3''] initialStoreQ))
     = run exactOps [AddToFavorites ''2'' ''3''] initialStoreQ \<and>
   \<not> fst (addToFavorites ''9'' ''3'' initialStoreQ) \<and>
   snd (addToFavorites ''9'' ''3'' initialStoreQ) = initialStoreQ \<and>
   \<not> fst (removeFromFavorites ''9'' ''3'' initialStoreQ) \<and>
   snd (removeFromFavorites ''9'' ''3'' initialStoreQ) = initialStoreQ \<and>
   fst (addRating exactOps ''9'' ''2'' 5 None initialStoreQ) = None \<and>
   snd (addRating exactOps ''9'' ''2'' 5 None initialStoreQ) = initialStoreQ \<and>
   fst (updateMovie ''9'' \<lparr>upd_title = Some ''Y'', upd_description = None,
                           upd_imageUrl = None, upd_releaseDate = None\<rparr> initialStoreQ) = None \<and>
   snd (updateMovie ''9'' \<lparr>upd_title = Some ''Y'', upd_description = None,
                           upd_imageUrl = None, upd_releaseDate = None\<rparr> initialStoreQ) = initialStoreQ \<and>
   \<not> fst (deleteMovie ''9'' initialStoreQ) \<and>
   snd (deleteMovie ''9'' initialStoreQ) = initialStoreQ"
proof -
  let ?s = "run exactOps [AddToFavorites ''2'' ''3''] initialStoreQ"
  let ?u = "\<lparr>upd_title = Some ''Y'', upd_description = None,
             upd_imageUrl = None, upd_releaseDate = None\<rparr>"
  have f1: "\<not> fst (addToFavorites ''2'' ''3'' ?s)"
    by (simp add: store_eval)
  have f2: "\<not> fst (addToFavorites ''9'' ''3'' initialStoreQ)"
    by (simp add: store_eval)
  have f3: "\<not> fst (removeFromFavorites ''9'' ''3'' initialStoreQ)"
    by (simp add: store_eval)
  have f4: "fst (addRating exactOps ''9'' ''2'' 5 None initialStoreQ) = None"
    by (simp add: store_eval)
  have f5: "fst (updateMovie ''9'' ?u initialStoreQ) = None"
    by (simp add: store_eval)
  have f6: "\<not> fst (deleteMovie ''9'' initialStoreQ)"
    by (simp add: store_eval)
  from f1 failure_leaves_store [where N = exactOps and uid = "''2''" and movieId = "''3''"
      and s = ?s]
  have g1: "snd (addToFavorites ''2'' ''3'' ?s) = ?s"
    by blast
  from f2 f3 f4 f5 f6
    failure_leaves_store [where N = exactOps and uid = "''9''" and movieId = "''3''"
      and s = initialStoreQ]
    failure_leaves_store [where N = exactOps and uid = "''2''" and movieId = "''9''"
      and s = initialStoreQ
      and r = 5 and rv = None and i = "''9''" and updates = ?u]
  have g2: "snd (addToFavorites ''9'' ''3'' initialStoreQ) = initialStoreQ"
    and g3: "snd (removeFromFavorites ''9'' ''3'' initialStoreQ) = initialStoreQ"
    and g4: "snd (addRating exactOps ''9'' ''2'' 5 None initialStoreQ) = initialStoreQ"
    and g5: "snd (updateMovie ''9'' ?u initialStoreQ) = initialStoreQ"
    and g6: "snd (deleteMovie ''9'' initialStoreQ) = initialStoreQ"
    by blast+
  from f1 f2 f3 f4 f5 f6 g1 g2 g3 g4 g5 g6 show ?thesis by blast
qed

section \<open>Adding and removing favorites\<close>

lemma mutateFirst_fixed:
  "find P xs = Some x \<Longrightarrow> f x = x \<Longrightarrow> mutateFirst P f xs = xs"
  by (induction xs) (auto split: if_splits)

lemma removeFromFavorites_fails_iff:
  "fst (removeFromFavorites u m s) = False \<longleftrightarrow> find (\<lambda>x. u_id x = u) (users s) = None"
  by (simp add: removeFromFavorites_def split: option.splits)

lemma favorites_known_user:
  assumes f: "find (\<lambda>x. u_id x = u) (users s) = Some usr"
  shows "isMovieFavorited u m (snd (addToFavorites u m s))"
    and "\<not> isMovieFavorited u m (snd (removeFromFavorites u m s))"
    and "\<not> isMovieFavorited u m s \<Longrightarrow> removeFromFavorites u m s = (True, s)"
    and "isMovieFavorited u m s \<Longrightarrow> addToFavorites u m s = (False, s)"
    and "\<not> isMovieFavorited u m s \<Longrightarrow> fst (addToFavorites u m s)"
proof -
  show "isMovieFavorited u m (snd (addToFavorites u m s))"
    using f by (simp add: isMovieFavorited_def addToFavorites_def find_mutateFirst)
  show "\<not> isMovieFavorited u m (snd (removeFromFavorites u m s))"
    using f by (simp add: isMovieFavorited_def removeFromFavorites_def find_mutateFirst)
  show "removeFromFavorites u m s = (True, s)" if "\<not> isMovieFavorited u m s"
  proof -
    from that f have "m \<notin> set (favorites usr)"
      by (simp add: isMovieFavorited_def)
    then have "filter (\<lambda>i. i \<noteq> m) (favorites usr) = favorites usr"
      by (auto simp: filter_id_conv)
    then have "usr\<lparr>favorites := filter (\<lambda>i. i \<noteq> m) (favorites usr)\<rparr> = usr"
      by simp
    with f have "mutateFirst (\<lambda>x. u_id x = u)
         (\<lambda>x. x\<lparr>favorites := filter (\<lambda>i. i \<noteq> m) (favorites x)\<rparr>) (users s) = users s"
      by (intro mutateFirst_fixed [where x = usr]) simp_all
    with f show ?thesis
      by (simp add: removeFromFavorites_def)
  qed
  show "addToFavorites u m s = (False, s)" if "isMovieFavorited u m s"
    using that f by (simp add: isMovieFavorited_def addToFavorites_def)
  show "fst (addToFavorites u m s)" if "\<not> isMovieFavorited u m s"
    using that f by (simp add: isMovieFavorited_def addToFavorites_def)
qed

text \<open>
  Claim C7. For a user id that \<open>find\<close> resolves and any movie id: after \<open>addToFavorites\<close>
  the movie is favorited; after \<open>removeFromFavorites\<close> it is not; \<open>removeFromFavorites\<close>
  of a movie that is not favorited returns \<open>true\<close> and leaves the store as it was;
  \<open>addToFavorites\<close> of a movie that is already favorited returns \<open>false\<close> (and \<open>true\<close>
  otherwise). For any user id, \<open>removeFromFavorites\<close> returns \<open>false\<close> exactly when the
  user is unknown.
\<close>

theorem favorites_roundtrip:
  "(find (\<lambda>x. u_id x = u) (users s) \<noteq> None \<longrightarrow>
      isMovieFavorited u m (snd (addToFavorites u m s)) \<and>
      \<not> isMovieFavorited u m (snd (removeFromFavorites u m s)) \<and>
      (\<not> isMovieFavorited u m s \<longrightarrow> removeFromFavorites u m s = (True, s)) \<and>
      (isMovieFavorited u m s \<longrightarrow> addToFavorites u m s = (False, s)) \<and>
      (\<not> isMovieFavorited u m s \<longrightarrow> fst (addToFavorites u m s))) \<and>
   (fst (removeFromFavorites u m s) = False \<longleftrightarrow> find (\<lambda>x. u_id x = u) (users s) = None)"
proof (intro conjI impI)
  show "fst (removeFromFavorites u m s) = False \<longleftrightarrow> find (\<lambda>x. u_id x = u) (users s) = None"
    by (rule removeFromFavorites_fails_iff)
next
  assume "find (\<lambda>x. u_id x = u) (users s) \<noteq> None"
  then obtain usr where f: "find (\<lambda>x. u_id x = u) (users s) = Some usr"
    by blast
  note k = favorites_known_user [OF f, of m]
  from k(1) show "isMovieFavorited u m (snd (addToFavorites u m s))" .
  from k(2) show "\<not> isMovieFavorited u m (snd (removeFromFavorites u m s))" .
  from k(3) show "removeFromFavorites u m s = (True, s)" if "\<not> isMovieFavorited u m s"
    using that .
  from k(4) show "addToFavorites u m s = (False, s)" if "isMovieFavorited u m s"
    using that .
  from k(5) show "fst (addToFavorites u m s)" if "\<not> isMovieFavorited u m s"
    using that .
qed

theorem favorites_roundtrip_witness:
  "find (\<lambda>x. u_id x = ''2'') (users initialStoreQ) \<noteq> None \<and>
   \<not> isMovieFavorited ''2'' ''3'' initialStoreQ \<and>
   fst (addToFavorites ''2'' ''3'' initialStoreQ) \<and>
   isMovieFavorited ''2'' ''3'' (snd (addToFavorites ''2'' ''3'' initialStoreQ)) \<and>
   removeFromFavorites ''2'' ''3'' initialStoreQ = (True, initialStoreQ) \<and>
   find (\<lambda>x. u_id x = ''2'') (users (run exactOps [AddToFavorites ''2'' ''3''] initialStoreQ)) \<noteq> None \<and>
   isMovieFavorited ''2'' ''3'' (run exactOps [AddToFavorites ''2'' ''3''] initialStoreQ) \<and>
   addToFavorites ''2'' ''3'' (run exactOps [AddToFavorites ''2'' ''3''] initialStoreQ)
     = (False, run exactOps [AddToFavorites ''2'' ''3''] initialStoreQ) \<and>
   \<not> isMovieFavorited ''2'' ''3''
       (snd (removeFromFavorites ''2'' ''3'' (run exactOps [AddToFavorites ''2'' ''3''] initialStoreQ))) \<and>
   find (\<lambda>x. u_id x = ''9'') (users initialStoreQ) = None \<and>
   fst (removeFromFavorites ''9'' ''3'' initialStoreQ) = False"
proof -
  let ?s = "run exactOps [AddToFavorites ''2'' ''3''] initialStoreQ"
  have u0: "find (\<lambda>x. u_id x = ''2'') (users initialStoreQ) \<noteq> None"
    by (simp add: initialStore_def initialUsers_def)
  have n0: "\<not> isMovieFavorited ''2'' ''3'' initialStoreQ"
    by (simp add: isMovieFavorited_def initialStore_def initialUsers_def)
  have u1: "find (\<lambda>x. u_id x = ''2'') (users ?s) \<noteq> None"
    by (simp add: store_eval)
  have y1: "isMovieFavorited ''2'' ''3'' ?s"
    by (simp add: isMovieFavorited_def store_eval)
  have u9: "find (\<lambda>x. u_id x = ''9'') (users initialStoreQ) = None"
    by (simp add: initialStore_def initialUsers_def)
  from u0 n0 favorites_roundtrip [of "''2''" initialStoreQ "''3''"]
  have a: "fst (addToFavorites ''2'' ''3'' initialStoreQ)"
    and b: "isMovieFavorited ''2'' ''3'' (snd (addToFavorites ''2'' ''3'' initialStoreQ))"
    and c: "removeFromFavorites ''2'' ''3'' initialStoreQ = (True, initialStoreQ)"
    by blast+
  from u1 y1 favorites_roundtrip [of "''2''" ?s "''3''"]
  have d: "addToFavorites ''2'' ''3'' ?s = (False, ?s)"
    and e: "\<not> isMovieFavorited ''2'' ''3'' (snd (removeFromFavorites ''2'' ''3'' ?s))"
    by blast+
  from u9 favorites_roundtrip [of "''9''" initialStoreQ "''3''"]
  have f: "fst (removeFromFavorites ''9'' ''3'' initialStoreQ) = False"
    by blast
  from u0 n0 a b c u1 y1 d e u9 f show ?thesis by blast
qed

section \<open>Filtering by year\<close>

text \<open>
  Claim C8, as amended. The claim says that every integer year selects exactly the movies
  of that year and that only \<open>null\<close> gives the whole collection. The guard \<open>!year\<close> also
  holds for \<open>0\<close>, so year 0 gives the whole collection too (the counterexample below: no
  initial movie is of year 0, yet all six are returned). What holds: \<open>null\<close> and \<open>0\<close> give
  all movies; every other integer year gives exactly the movies whose release year, as
  the platform reads it, is that year, in the order of the catalog.
\<close>

theorem filterMoviesByYear_nonzero:
  "filterMoviesByYear getFullYear None s = movies s \<and>
   filterMoviesByYear getFullYear (Some 0) s = movies s \<and>
   (y \<noteq> 0 \<longrightarrow>
      filterMoviesByYear getFullYear (Some y) s
        = filter (\<lambda>movie. getFullYear (releaseDate movie) = Some y) (movies s) \<and>
      subseq (filterMoviesByYear getFullYear (Some y) s) (movies s) \<and>
      set (filterMoviesByYear getFullYear (Some y) s)
        = {movie \<in> set (movies s). getFullYear (releaseDate movie) = Some y})"
  by (simp add: filterMoviesByYear_def Let_def)

lemma isoYear_initial:
  "map (\<lambda>m. isoYear (releaseDate m)) initialMovies
     = [Some 1999, Some 2010, Some 2014, Some 2008, Some 1994, Some 1999]"
  by (simp add: initialMovies_def isoYear_def digitVal_def)

theorem filterMoviesByYear_zero_counterexample:
  "\<not> (filterMoviesByYear isoYear (Some 0) initialStoreQ
        = filter (\<lambda>movie. isoYear (releaseDate movie) = Some 0) (movies initialStoreQ))"
proof -
  have "filter (\<lambda>movie. isoYear (releaseDate movie) = Some 0) (initialMovies :: rat Movie list) = []"
    using isoYear_initial by (auto simp: filter_empty_conv initialMovies_def)
  moreover have "filterMoviesByYear isoYear (Some 0) initialStoreQ = (initialMovies :: rat Movie list)"
    by (simp add: filterMoviesByYear_def initialStore_def)
  moreover have "(initialMovies :: rat Movie list) \<noteq> []"
    by (simp add: initialMovies_def)
  ultimately show ?thesis
    by (simp add: initialStore_def)
qed

theorem filterMoviesByYear_nonzero_witness:
  "(1999::int) \<noteq> 0 \<and>
   map title (filterMoviesByYear isoYear (Some 1999) initialStoreQ) = [''The Matrix'', ''Fight Club''] \<and>
   filterMoviesByYear isoYear (Some 1999) initialStoreQ
     = filter (\<lambda>movie. isoYear (releaseDate movie) = Some 1999) (movies initialStoreQ) \<and>
   subseq (filterMoviesByYear isoYear (Some 1999) initialStoreQ) (movies initialStoreQ)"
proof -
  have t: "map title (filterMoviesByYear isoYear (Some 1999) initialStoreQ)
      = [''The Matrix'', ''Fight Club'']"
    by (simp add: filterMoviesByYear_def initialStore_def initialMovies_def isoYear_def digitVal_def)
  from t filterMoviesByYear_nonzero [of isoYear initialStoreQ 1999]
  show ?thesis by simp
qed

section \<open>The years of the catalog\<close>

lemma fromSet_step:
  "distinct acc \<Longrightarrow>
   distinct (foldl (\<lambda>seen x. if x \<in> set seen then seen else seen @ [x]) acc xs) \<and>
   set (foldl (\<lambda>seen x. if x \<in> set seen then seen else seen @ [x]) acc xs) = set acc \<union> set xs"
  by (induction xs arbitrary: acc) auto

lemma fromSet_distinct: "distinct (fromSet xs)"
  and fromSet_set: "set (fromSet xs) = set xs"
  using fromSet_step [of "[]" xs] by (simp_all add: fromSet_def)

lemma positive_yearCompare [simp]: "positive (yearCompare (Some x) (Some y)) \<longleftrightarrow> x < y"
  by (simp add: positive_def yearCompare_def)

lemma insertBy_years:
  assumes "sorted_wrt (>) ys" and "x \<notin> set ys"
  shows "\<exists>zs. insertBy yearCompare (Some x) (map Some ys) = map Some zs \<and>
              sorted_wrt (>) zs \<and> set zs = insert x (set ys)"
  using assms
proof (induction ys)
  case Nil
  show ?case by (intro exI [of _ "[x]"]) simp
next
  case (Cons y ys)
  show ?case
  proof (cases "x < y")
    case True
    from Cons obtain zs where zs: "insertBy yearCompare (Some x) (map Some ys) = map Some zs"
      "sorted_wrt (>) zs" "set zs = insert x (set ys)"
      by auto
    from Cons.prems True zs show ?thesis
      by (intro exI [of _ "y # zs"]) auto
  next
    case False
    with Cons.prems have "y < x" by auto
    with Cons.prems False show ?thesis
      by (intro exI [of _ "x # y # ys"]) fastforce
  qed
qed

lemma sortBy_years:
  "distinct xs \<Longrightarrow>
   \<exists>zs. sortBy yearCompare (map Some xs) = map Some zs \<and> sorted_wrt (>) zs \<and> set zs = set xs"
proof (induction xs)
  case Nil
  show ?case by (simp add: sortBy_def)
next
  case (Cons x xs)
  then obtain ys where ys: "sortBy yearCompare (map Some xs) = map Some ys"
    "sorted_wrt (>) ys" "set ys = set xs"
    by auto
  from Cons.prems ys(3) have "x \<notin> set ys" by simp
  from insertBy_years [OF ys(2) this] obtain zs
    where zs: "insertBy yearCompare (Some x) (map Some ys) = map Some zs"
      "sorted_wrt (>) zs" "set zs = insert x (set ys)"
    by blast
  have "sortBy yearCompare (map Some (x # xs))
      = insertBy yearCompare (Some x) (sortBy yearCompare (map Some xs))"
    by (simp add: sortBy_def)
  with ys zs show ?case
    by (intro exI [of _ zs]) simp
qed

lemma all_Some_map: "None \<notin> set xs \<Longrightarrow> \<exists>ys. xs = map Some ys"
proof (induction xs)
  case Nil
  show ?case by simp
next
  case (Cons x xs)
  then obtain ys where "xs = map Some ys" by auto
  moreover from Cons.prems obtain y where "x = Some y" by (cases x) auto
  ultimately show ?case
    by (intro exI [of _ "y # ys"]) simp
qed

lemma sorted_desc_distinct: "sorted_wrt (>) (zs :: int list) \<Longrightarrow> distinct zs"
  by (induction zs) auto

text \<open>
  Claim C9. When every release date of the catalog is a date the platform can read,
  \<open>getMovieYears\<close> returns integers only, and these are the release years of the movies,
  each once, every one of them present, in strictly descending order (each element is
  greater than the next).
\<close>

theorem getMovieYears_descending:
  assumes "\<forall>movie \<in> set (movies s). getFullYear (releaseDate movie) \<noteq> None"
  shows "\<exists>ys. getMovieYears getFullYear s = map Some ys \<and>
              distinct ys \<and> sorted_wrt (>) ys \<and>
              set ys = {y. \<exists>movie \<in> set (movies s). getFullYear (releaseDate movie) = Some y}"
proof -
  let ?years = "map (\<lambda>movie. getFullYear (releaseDate movie)) (movies s)"
  from assms have "None \<notin> set (fromSet ?years)"
    by (auto simp: fromSet_set)
  then obtain us where us: "fromSet ?years = map Some us"
    using all_Some_map by blast
  have "distinct (map Some us)"
    using fromSet_distinct [of ?years] us by simp
  then have "distinct us"
    by (simp add: distinct_map)
  from sortBy_years [OF this] obtain zs
    where zs: "sortBy yearCompare (map Some us) = map Some zs" "sorted_wrt (>) zs" "set zs = set us"
    by blast
  have img: "Some ` set us = set ?years"
    using fromSet_set [of ?years] us by (metis set_map)
  have "y \<in> set us \<longleftrightarrow> (\<exists>movie \<in> set (movies s). getFullYear (releaseDate movie) = Some y)" for y
  proof -
    have "y \<in> set us \<longleftrightarrow> Some y \<in> Some ` set us"
      by (simp add: inj_image_mem_iff)
    also have "\<dots> \<longleftrightarrow> Some y \<in> set ?years"
      by (simp only: img)
    also have "\<dots> \<longleftrightarrow> (\<exists>movie \<in> set (movies s). getFullYear (releaseDate movie) = Some y)"
      by force
    finally show ?thesis .
  qed
  then have "set us = {y. \<exists>movie \<in> set (movies s). getFullYear (releaseDate movie) = Some y}"
    by blast
  with zs us sorted_desc_distinct [OF zs(2)] show ?thesis
    by (intro exI [of _ zs]) (simp add: getMovieYears_def Let_def)
qed


lemma initial_years_valid:
  "list_all (\<lambda>movie. isoYear (releaseDate movie) \<noteq> None) (movies initialStore)"
  by (simp add: initialStore_def initialMovies_def isoYear_def digitVal_def)

lemma initial_years_fromSet:
  "fromSet [Some 1999, Some 2010, Some 2014, Some 2008, Some 1994, Some (1999::int)]
     = [Some 1999, Some 2010, Some 2014, Some 2008, Some 1994]"
  by (simp add: fromSet_def)

lemma initial_years_sortBy:
  "sortBy yearCompare [Some 1999, Some 2010, Some 2014, Some 2008, Some 1994]
     = map Some [2014, 2010, 2008, 1999, 1994]"
  by (simp add: sortBy_def yearCompare_def positive_def)

theorem getMovieYears_descending_witness:
  "list_all (\<lambda>movie. isoYear (releaseDate movie) \<noteq> None) (movies initialStoreQ) \<and>
   getMovieYears isoYear initialStoreQ = map Some [2014, 2010, 2008, 1999, 1994] \<and>
   (\<exists>ys. getMovieYears isoYear initialStoreQ = map Some ys \<and> distinct ys \<and> sorted_wrt (>) ys)"
proof -
  have v: "list_all (\<lambda>movie. isoYear (releaseDate movie) \<noteq> None) (movies initialStoreQ)"
    by (rule initial_years_valid)
  have e: "getMovieYears isoYear initialStoreQ = map Some [2014, 2010, 2008, 1999, 1994]"
    unfolding getMovieYears_def Let_def
    by (simp only: initialStore_def store.simps isoYear_initial initial_years_fromSet
          initial_years_sortBy)
  from v have "\<forall>movie \<in> set (movies initialStoreQ). isoYear (releaseDate movie) \<noteq> None"
    by (simp add: list_all_iff)
  from getMovieYears_descending [OF this]
  have "\<exists>ys. getMovieYears isoYear initialStoreQ = map Some ys \<and> distinct ys \<and> sorted_wrt (>) ys"
    by blast
  with v e show ?thesis by blast
qed

section \<open>Listing the favorite movies\<close>

lemma getFavoriteMovies_unknown:
  "find (\<lambda>u. u_id u = uid) (users s) = None \<Longrightarrow> getFavoriteMovies uid s = []"
  by (simp add: getFavoriteMovies_def)

lemma getFavoriteMovies_known:
  "find (\<lambda>u. u_id u = uid) (users s) = Some usr \<Longrightarrow>
   getFavoriteMovies uid s = filter (\<lambda>movie. m_id movie \<in> set (favorites usr)) (movies s)"
  by (simp add: getFavoriteMovies_def)

text \<open>
  Claim C10. For an unknown user \<open>getFavoriteMovies\<close> returns the empty array. For a known
  user it returns the movies of the catalog whose id is among the user's favorites, in the
  order of the catalog (it is a subsequence of \<open>movies\<close>, whatever the order of the
  favorites), and nothing for a favorited id that no movie of the catalog has: the ids
  returned are the favorites that occur in the catalog.
\<close>

theorem getFavoriteMovies_catalog_order:
  "(find (\<lambda>u. u_id u = uid) (users s) = None \<longrightarrow> getFavoriteMovies uid s = []) \<and>
   (find (\<lambda>u. u_id u = uid) (users s) = Some usr \<longrightarrow>
      subseq (getFavoriteMovies uid s) (movies s) \<and>
      getFavoriteMovies uid s = filter (\<lambda>movie. m_id movie \<in> set (favorites usr)) (movies s) \<and>
      set (getFavoriteMovies uid s) = {movie \<in> set (movies s). m_id movie \<in> set (favorites usr)} \<and>
      m_id ` set (getFavoriteMovies uid s) = set (favorites usr) \<inter> m_id ` set (movies s))"
proof (intro conjI impI)
  assume "find (\<lambda>u. u_id u = uid) (users s) = None"
  then show "getFavoriteMovies uid s = []" by (rule getFavoriteMovies_unknown)
next
  assume f: "find (\<lambda>u. u_id u = uid) (users s) = Some usr"
  note k = getFavoriteMovies_known [OF f]
  from k show "getFavoriteMovies uid s = filter (\<lambda>movie. m_id movie \<in> set (favorites usr)) (movies s)" .
  from k show "subseq (getFavoriteMovies uid s) (movies s)" by simp
  from k show "set (getFavoriteMovies uid s) = {movie \<in> set (movies s). m_id movie \<in> set (favorites usr)}"
    by simp
  from k show "m_id ` set (getFavoriteMovies uid s) = set (favorites usr) \<inter> m_id ` set (movies s)"
    by auto
qed

theorem getFavoriteMovies_catalog_order_witness:
  "find (\<lambda>u. u_id u = ''9'') (users initialStoreQ) = None \<and>
   getFavoriteMovies ''9'' initialStoreQ = [] \<and>
   map_option favorites (find (\<lambda>u. u_id u = ''2'')
       (users (run exactOps [AddToFavorites ''2'' ''5'', AddToFavorites ''2'' ''999'',
                    AddToFavorites ''2'' ''2''] initialStoreQ))) = Some [''5'', ''999'', ''2''] \<and>
   map m_id (getFavoriteMovies ''2''
       (run exactOps [AddToFavorites ''2'' ''5'', AddToFavorites ''2'' ''999'',
             AddToFavorites ''2'' ''2''] initialStoreQ)) = [''2'', ''5''] \<and>
   subseq (getFavoriteMovies ''2''
       (run exactOps [AddToFavorites ''2'' ''5'', AddToFavorites ''2'' ''999'',
             AddToFavorites ''2'' ''2''] initialStoreQ))
     (movies (run exactOps [AddToFavorites ''2'' ''5'', AddToFavorites ''2'' ''999'',
             AddToFavorites ''2'' ''2''] initialStoreQ))"
proof -
  let ?s = "run exactOps [AddToFavorites ''2'' ''5'', AddToFavorites ''2'' ''999'',
                 AddToFavorites ''2'' ''2''] initialStoreQ"
  have u9: "find (\<lambda>u. u_id u = ''9'') (users initialStoreQ) = None"
    by (simp add: initialStore_def initialUsers_def)
  obtain usr where u2: "find (\<lambda>u. u_id u = ''2'') (users ?s) = Some usr"
    and fv: "favorites usr = [''5'', ''999'', ''2'']"
    by (simp add: store_eval)
  have ids: "map m_id (getFavoriteMovies ''2'' ?s) = [''2'', ''5'']"
    by (simp add: getFavoriteMovies_def store_eval)
  from u9 getFavoriteMovies_catalog_order [of "''9''" initialStoreQ]
  have a: "getFavoriteMovies ''9'' initialStoreQ = []"
    by blast
  from u2 getFavoriteMovies_catalog_order [of "''2''" ?s usr]
  have b: "subseq (getFavoriteMovies ''2'' ?s) (movies ?s)"
    by blast
  from u2 fv have c: "map_option favorites (find (\<lambda>u. u_id u = ''2'') (users ?s))
      = Some [''5'', ''999'', ''2'']"
    by simp
  from u9 a c ids b show ?thesis by blast
qed

end
